theory Spec2Isabelle
  imports Main
begin

section \<open>JavaScript string operations used by the resolver and the verifier\<close>

text \<open>
  Strings are character lists. \<open>startsWith s p\<close> is \<^verbatim>\<open>s.startsWith(p)\<close>,
  \<open>split_str s sep\<close> is \<^verbatim>\<open>s.split(sep)\<close> for a one-character separator,
  \<open>replace_str s pat rep\<close> is \<^verbatim>\<open>s.replace(pat, rep)\<close> for a string pattern and a
  replacement without \<^verbatim>\<open>$\<close> (only the first occurrence is replaced) and
  \<open>join_str xs sep\<close> is \<^verbatim>\<open>xs.join(sep)\<close>.
\<close>

fun startsWith :: "string \<Rightarrow> string \<Rightarrow> bool" where
  "startsWith s [] = True"
| "startsWith [] (p # ps) = False"
| "startsWith (c # cs) (p # ps) = (c = p \<and> startsWith cs ps)"

fun split_str :: "string \<Rightarrow> char \<Rightarrow> string list" where
  "split_str [] sep = [[]]"
| "split_str (c # cs) sep =
     (if c = sep then [] # split_str cs sep
      else (case split_str cs sep of [] \<Rightarrow> [[c]] | r # rs \<Rightarrow> (c # r) # rs))"

fun replace_str :: "string \<Rightarrow> string \<Rightarrow> string \<Rightarrow> string" where
  "replace_str [] pat rep = (if pat = [] then rep else [])"
| "replace_str (c # cs) pat rep =
     (if startsWith (c # cs) pat then rep @ drop (length pat) (c # cs)
      else c # replace_str cs pat rep)"

fun join_str :: "string list \<Rightarrow> string \<Rightarrow> string" where
  "join_str [] sep = []"
| "join_str [x] sep = x"
| "join_str (x # y # ys) sep = x @ sep @ join_str (y # ys) sep"

section \<open>Errors\<close>

text \<open>
  The code raises plain \<^verbatim>\<open>Error\<close> objects that differ in their message only. Each
  constructor stands for one \<^verbatim>\<open>throw\<close> site and carries what the message is built
  from:
  \<^item> \<open>MissingIssuerError m\<close>: \<^verbatim>\<open>Error('Credential must have an issuer')\<close> and
    \<^verbatim>\<open>Error('Credential issuer must have an id')\<close>, with the message \<open>m\<close>;
  \<^item> \<open>IssuerKeyMismatchError d k\<close>:
    \<^verbatim>\<open>Error(`Credential issuer ${d} does not match assertion key ${k}`)\<close>;
  \<^item> \<open>ControllerNotFoundError i\<close>: \<^verbatim>\<open>Error(`Controller not found for id: ${i}`)\<close>;
  \<^item> \<open>SchemaNotFoundError i\<close>: \<^verbatim>\<open>Error(`Schema not found for id: ${i}`)\<close>;
  \<^item> \<open>AssertionKeyNotFoundError\<close>:
    \<^verbatim>\<open>Error("Assertion key not found in private key file")\<close>;
  \<^item> \<open>MalformedInputError\<close>: what the codec raises on an unparseable signed object;
  \<^item> \<open>CollaboratorError m\<close>: anything else raised by a function that the modelled code
    calls but does not define (the codec, the key resolver, the signature verifier, the
    schema compiler, the file system).
\<close>

datatype error =
    MalformedInputError
  | MissingIssuerError string
  | IssuerKeyMismatchError string string
  | ControllerNotFoundError string
  | SchemaNotFoundError string
  | AssertionKeyNotFoundError
  | CollaboratorError string

section \<open>Controller documents and the resolver state\<close>

record 'k verificationMethod =
  vm_id :: string
  publicKeyJwk :: 'k

text \<open>
  A controller document, with the three members the resolver reads. \<open>None\<close> is an
  absent member (for \<open>verificationMethod\<close> also one that is not an array).
\<close>

record 'k controller =
  verificationMethod :: "'k verificationMethod list option"
  assertionMethod :: "string list option"
  authentication :: "string list option"

text \<open>
  What a slot of \<^verbatim>\<open>controllerLookup\<close> can be read as. \<^verbatim>\<open>addController\<close> stores
  documents; the body of a fetched response is stored as it was parsed, so it may also be
  a falsy JSON value (\<^verbatim>\<open>null\<close>, \<^verbatim>\<open>false\<close>, \<^verbatim>\<open>0\<close>, \<^verbatim>\<open>""\<close>). \<open>Doc c ps\<close> stands for
  every truthy value: \<open>c\<close> holds the three members that the resolver reads from it and
  \<open>ps\<close> lists its own properties by name, each as a table read would see it. The
  properties matter only for a document that becomes the prototype of the table.
\<close>

datatype 'k stored = Falsy | Doc "'k controller" "(string \<times> 'k stored) list"

text \<open>
  A response of \<^verbatim>\<open>fetch\<close>: its \<^verbatim>\<open>ok\<close> flag and what \<^verbatim>\<open>response.json()\<close> gives
  (\<open>None\<close> when it rejects).
\<close>

datatype 'k response = Response (ok: bool) (json: "'k stored option")

text \<open>
  The tables of the resolver are plain objects, so a read sees the members that every
  object inherits from \<^verbatim>\<open>Object.prototype\<close>. These are their names; each names a
  function, and \<^verbatim>\<open>__proto__\<close> the accessor of the prototype, so all of them read as
  truthy values.
\<close>

definition objectPrototypeNames :: "string list" where
  "objectPrototypeNames =
     [''constructor'', ''__proto__'', ''__defineGetter__'', ''__defineSetter__'',
      ''__lookupGetter__'', ''__lookupSetter__'', ''hasOwnProperty'', ''isPrototypeOf'',
      ''propertyIsEnumerable'', ''toLocaleString'', ''toString'', ''valueOf'']"

text \<open>
  What a slot of \<^verbatim>\<open>schemaLookup\<close> can be read as. \<^verbatim>\<open>addSchema\<close> stores a schema of the
  validator library, which is a boolean schema or a schema object; \<open>SchemaObject x ps\<close>
  is the object \<open>x\<close> with its own properties \<open>ps\<close> by name, each as a table read would
  see it. A read can also give a member inherited from \<^verbatim>\<open>Object.prototype\<close>
  (\<open>PrototypeMember\<close>, with its name) or a property of an object installed as prototype
  that is neither a boolean nor an object (\<open>Primitive\<close>, with its truthiness).
\<close>

datatype 'o schema =
    SchemaBool bool
  | SchemaObject 'o "(string \<times> 'o schema) list"
  | Primitive bool
  | PrototypeMember string

text \<open>
  What \<^verbatim>\<open>resolveSchema\<close> returns: a validator that the compiler made, or the member of
  \<^verbatim>\<open>Object.prototype\<close> that the cache read gave.
\<close>

datatype 'v validateFunction = Compiled 'v | InheritedMember string

text \<open>
  The closure state of \<^verbatim>\<open>createGenericResolver\<close>. \<open>controllerLookup\<close>, \<open>schemaLookup\<close> and
  \<open>compiledSchemaCache\<close> hold the own properties of the three objects. \<open>controllerProto\<close>
  and \<open>schemaProto\<close> are the prototypes of the two lookup tables: \<open>None\<close> is
  \<^verbatim>\<open>Object.prototype\<close>, \<open>Some (x, ps)\<close> the object with the properties \<open>ps\<close> that an
  assignment to \<^verbatim>\<open>__proto__\<close> installed. The prototype of the cache stays \<^verbatim>\<open>Object.prototype\<close>: its only assignment
  follows a read of the same name that gave \<^verbatim>\<open>undefined\<close>, which \<^verbatim>\<open>__proto__\<close> never
  does. Two trace fields record the effects: \<open>requests\<close> lists the URLs passed to
  \<^verbatim>\<open>fetch\<close> and \<open>compiles\<close> the values passed to \<^verbatim>\<open>ajv.compile\<close>, oldest first.
\<close>

record ('k, 'o, 'v) resolver =
  controllerLookup :: "string \<rightharpoonup> 'k stored"
  controllerProto :: "('k controller \<times> (string \<times> 'k stored) list) option"
  schemaLookup :: "string \<rightharpoonup> 'o schema"
  schemaProto :: "('o \<times> (string \<times> 'o schema) list) option"
  compiledSchemaCache :: "string \<rightharpoonup> 'v"
  requests :: "string list"
  compiles :: "'o schema list"

text \<open>
  What the resolver calls and does not define. \<open>fetch\<close> is the network: given the
  requests made so far and a URL it gives a response, or \<open>None\<close> when the request
  fails. \<open>compile\<close> is \<^verbatim>\<open>ajv.compile\<close> on the resolver's one instance: given the values
  compiled so far and a value it gives a validator or raises.
  \<open>createPublicKeyResolver\<close> builds the key resolver of one role.
\<close>

record ('k, 'o, 'v, 'r) platform =
  fetch :: "string list \<Rightarrow> string \<Rightarrow> 'k response option"
  compile :: "'o schema list \<Rightarrow> 'o schema \<Rightarrow> error + 'v"
  createPublicKeyResolver :: "(string \<times> 'k) list \<Rightarrow> string \<Rightarrow> error + 'r"

record 'r resolved =
  assertion :: 'r
  authentication_r :: 'r

subsection \<open>Reading and writing the tables\<close>

text \<open>
  A truthy value without the three members that the resolver reads, such as a function
  inherited from \<^verbatim>\<open>Object.prototype\<close>, an array or a string, taken for a controller.
\<close>

definition noMembers :: "'k controller" where
  "noMembers = \<lparr>verificationMethod = None, assertionMethod = None, authentication = None\<rparr>"

definition plainValue :: "'k stored" where
  "plainValue = Doc noMembers []"

text \<open>
  \<^verbatim>\<open>controllerLookup[k]\<close>: the own property; else the property of the installed
  prototype; else the inherited member, where \<^verbatim>\<open>__proto__\<close> reads as the prototype
  itself. \<open>None\<close> is \<^verbatim>\<open>undefined\<close>.
\<close>

definition readController :: "('k, 'o, 'v) resolver \<Rightarrow> string \<Rightarrow> 'k stored option" where
  "readController st k =
     (case controllerLookup st k of
        Some v \<Rightarrow> Some v
      | None \<Rightarrow>
          (case controllerProto st of
             None \<Rightarrow> if k \<in> set objectPrototypeNames then Some plainValue else None
           | Some (c, ps) \<Rightarrow>
               (case map_of ps k of
                  Some v \<Rightarrow> Some v
                | None \<Rightarrow>
                    if k = ''__proto__'' then Some (Doc c ps)
                    else if k \<in> set objectPrototypeNames then Some plainValue
                    else None)))"

text \<open>\<^verbatim>\<open>schemaLookup[k]\<close>, in the same way.\<close>

definition readSchema :: "('k, 'o, 'v) resolver \<Rightarrow> string \<Rightarrow> 'o schema option" where
  "readSchema st k =
     (case schemaLookup st k of
        Some v \<Rightarrow> Some v
      | None \<Rightarrow>
          (case schemaProto st of
             None \<Rightarrow> if k \<in> set objectPrototypeNames then Some (PrototypeMember k) else None
           | Some (x, ps) \<Rightarrow>
               (case map_of ps k of
                  Some v \<Rightarrow> Some v
                | None \<Rightarrow>
                    if k = ''__proto__'' then Some (SchemaObject x ps)
                    else if k \<in> set objectPrototypeNames then Some (PrototypeMember k)
                    else None)))"

text \<open>\<^verbatim>\<open>compiledSchemaCache[k]\<close>: the own property, else the inherited member.\<close>

definition readCache :: "('k, 'o, 'v) resolver \<Rightarrow> string \<Rightarrow> 'v validateFunction option" where
  "readCache st k =
     (case compiledSchemaCache st k of
        Some v \<Rightarrow> Some (Compiled v)
      | None \<Rightarrow> if k \<in> set objectPrototypeNames then Some (InheritedMember k) else None)"

text \<open>
  \<^verbatim>\<open>controllerLookup[k] = controller\<close> for a controller document with the members \<open>c\<close>
  and the properties \<open>ps\<close>. The name \<^verbatim>\<open>__proto__\<close> reaches the setter of
  \<^verbatim>\<open>Object.prototype\<close>, which makes the document the prototype of the table and creates
  no property, unless the table or its prototype has a data property of that name. Every
  other name creates or overwrites an own property.
\<close>

definition writeController ::
  "('k, 'o, 'v) resolver \<Rightarrow> string \<Rightarrow> 'k controller \<times> (string \<times> 'k stored) list
     \<Rightarrow> ('k, 'o, 'v) resolver" where
  "writeController st k controller =
     (if k = ''__proto__'' \<and> controllerLookup st k = None \<and>
         (case controllerProto st of None \<Rightarrow> True | Some (c, ps) \<Rightarrow> map_of ps k = None)
      then st\<lparr>controllerProto := Some controller\<rparr>
      else st\<lparr>controllerLookup :=
                (controllerLookup st)(k \<mapsto> Doc (fst controller) (snd controller))\<rparr>)"

text \<open>
  \<^verbatim>\<open>schemaLookup[k] = s\<close>, in the same way; the setter ignores a value that is not an
  object.
\<close>

definition writeSchema ::
  "('k, 'o, 'v) resolver \<Rightarrow> string \<Rightarrow> 'o schema \<Rightarrow> ('k, 'o, 'v) resolver" where
  "writeSchema st k s =
     (if k = ''__proto__'' \<and> schemaLookup st k = None \<and>
         (case schemaProto st of None \<Rightarrow> True | Some (x, ps) \<Rightarrow> map_of ps k = None)
      then (case s of SchemaObject x ps \<Rightarrow> st\<lparr>schemaProto := Some (x, ps)\<rparr> | _ \<Rightarrow> st)
      else st\<lparr>schemaLookup := (schemaLookup st)(k \<mapsto> s)\<rparr>)"

subsection \<open>createGenericResolver, addController, addSchema\<close>

definition createGenericResolver ::
  "(string \<times> 'k controller \<times> (string \<times> 'k stored) list) list \<Rightarrow> (string \<times> 'o schema) list
     \<Rightarrow> ('k, 'o, 'v) resolver" where
  "createGenericResolver controllers schemas =
     foldl (\<lambda>st (i, s). writeSchema st i s)
       (foldl (\<lambda>st (i, c). writeController st i c)
          \<lparr> controllerLookup = Map.empty, controllerProto = None,
            schemaLookup = Map.empty, schemaProto = None,
            compiledSchemaCache = Map.empty,
            requests = [], compiles = [] \<rparr>
          controllers)
       schemas"

definition addController ::
  "('k, 'o, 'v) resolver \<Rightarrow> string \<Rightarrow> 'k controller \<times> (string \<times> 'k stored) list
     \<Rightarrow> ('k, 'o, 'v) resolver" where
  "addController st i controller = writeController st i controller"

text \<open>\<^verbatim>\<open>delete compiledSchemaCache[id]\<close> removes an own property and nothing else.\<close>

definition addSchema ::
  "('k, 'o, 'v) resolver \<Rightarrow> string \<Rightarrow> 'o schema \<Rightarrow> ('k, 'o, 'v) resolver" where
  "addSchema st i s =
     (writeSchema st i s)
       \<lparr>compiledSchemaCache := (compiledSchemaCache (writeSchema st i s))(i := None)\<rparr>"

subsection \<open>resolveSchema\<close>

text \<open>
  The guard \<^verbatim>\<open>!schema\<close> is true for \<^verbatim>\<open>undefined\<close> and for a falsy value. The assignment
  to the cache is reached only after the cache read gave \<^verbatim>\<open>undefined\<close>, so its name is
  not an inherited one and it creates an own property.
\<close>

definition resolveSchema ::
  "('k, 'o, 'v, 'r) platform \<Rightarrow> ('k, 'o, 'v) resolver \<Rightarrow> string
     \<Rightarrow> (error + 'v validateFunction) \<times> ('k, 'o, 'v) resolver" where
  "resolveSchema p st i =
     (case readCache st i of
        Some cached \<Rightarrow> (Inr cached, st)
      | None \<Rightarrow>
          (case readSchema st i of
             None \<Rightarrow> (Inl (SchemaNotFoundError i), st)
           | Some s \<Rightarrow>
               if s = SchemaBool False \<or> s = Primitive False
               then (Inl (SchemaNotFoundError i), st)
               else
                 (case compile p (compiles st) s of
                    Inl e \<Rightarrow> (Inl e, st\<lparr>compiles := compiles st @ [s]\<rparr>)
                  | Inr compiled \<Rightarrow>
                      (Inr (Compiled compiled),
                       st\<lparr>compiledSchemaCache := (compiledSchemaCache st)(i \<mapsto> compiled),
                          compiles := compiles st @ [s]\<rparr>))))"

subsection \<open>resolveController\<close>

text \<open>The URL of a did:web document (the block that computes \<^verbatim>\<open>url\<close>).\<close>

definition didWebUrl :: "string \<Rightarrow> string" where
  "didWebUrl did =
     (case split_str (replace_str did ''did:web:'' '''') CHR '':'' of
        [] \<Rightarrow> ''https://undefined/.well-known/did.json''
      | domain # pathParts \<Rightarrow>
          if length pathParts > 0
          then ''https://'' @ domain @ ''/'' @ join_str pathParts ''/'' @ ''/did.json''
          else ''https://'' @ domain @ ''/.well-known/did.json'')"

text \<open>\<^verbatim>\<open>xs?.includes(x)\<close> on an optional array of strings.\<close>

definition includes_str :: "string list option \<Rightarrow> string \<Rightarrow> bool" where
  "includes_str xs x = (case xs of None \<Rightarrow> False | Some l \<Rightarrow> x \<in> set l)"

text \<open>A slot read in a boolean position: absent and falsy entries count as missing.\<close>

definition truthyController :: "'k stored option \<Rightarrow> 'k controller option" where
  "truthyController v = (case v of Some (Doc c ps) \<Rightarrow> Some c | _ \<Rightarrow> None)"

text \<open>
  \<^verbatim>\<open>id.split('#')[0]\<close>: the identifier without its fragment. An absent first element
  would be \<^verbatim>\<open>undefined\<close>, which the guard \<^verbatim>\<open>if (did)\<close> treats like the empty string.
\<close>

definition didOf :: "string \<Rightarrow> string" where
  "didOf i = (case split_str i CHR ''#'' of [] \<Rightarrow> [] | did # rest \<Rightarrow> did)"

text \<open>
  The first half of \<^verbatim>\<open>resolveController\<close>: the local lookup under the identifier as
  given and the did:web fallback, which stores what it fetched under the DID. That
  assignment creates an own property: the DID begins with \<^verbatim>\<open>did:web:\<close> there, so it is
  not the name \<^verbatim>\<open>__proto__\<close>.
\<close>

definition locateController ::
  "('k, 'o, 'v, 'r) platform \<Rightarrow> ('k, 'o, 'v) resolver \<Rightarrow> string
     \<Rightarrow> 'k controller option \<times> ('k, 'o, 'v) resolver" where
  "locateController p st i =
     (case truthyController (readController st i) of
        Some c \<Rightarrow> (Some c, st)
      | None \<Rightarrow>
          if startsWith i ''did:web:'' then
            (let did = didOf i in
             if did = [] then (None, st)
             else
               (let url = didWebUrl did;
                    st1 = st\<lparr>requests := requests st @ [url]\<rparr>
                in case fetch p (requests st) url of
                     None \<Rightarrow> (None, st1)
                   | Some response \<Rightarrow>
                       if ok response then
                         (case json response of
                            None \<Rightarrow> (None, st1)
                          | Some fetchedController \<Rightarrow>
                              (truthyController (Some fetchedController),
                               st1\<lparr>controllerLookup :=
                                     (controllerLookup st1)(did \<mapsto> fetchedController)\<rparr>))
                       else (None, st1)))
          else (None, st))"

definition resolveController ::
  "('k, 'o, 'v, 'r) platform \<Rightarrow> ('k, 'o, 'v) resolver \<Rightarrow> string
     \<Rightarrow> (error + 'r resolved) \<times> ('k, 'o, 'v) resolver" where
  "resolveController p st i =
     (case locateController p st i of
        (None, st1) \<Rightarrow> (Inl (ControllerNotFoundError i), st1)
      | (Some controller, st1) \<Rightarrow>
          (let vms = (case verificationMethod controller of None \<Rightarrow> [] | Some l \<Rightarrow> l);
               assertionKeys =
                 map (\<lambda>vm. (vm_id vm, publicKeyJwk vm))
                   (filter (\<lambda>vm. includes_str (assertionMethod controller) (vm_id vm)) vms);
               authenticationKeys =
                 map (\<lambda>vm. (vm_id vm, publicKeyJwk vm))
                   (filter (\<lambda>vm. includes_str (authentication controller) (vm_id vm)) vms)
           in case createPublicKeyResolver p assertionKeys ''assertion'' of
                Inl e \<Rightarrow> (Inl e, st1)
              | Inr a \<Rightarrow>
                  (case createPublicKeyResolver p authenticationKeys ''authentication'' of
                     Inl e \<Rightarrow> (Inl e, st1)
                   | Inr b \<Rightarrow> (Inr \<lparr>assertion = a, authentication_r = b\<rparr>, st1))))"

section \<open>Credentials and their verification\<close>

record header =
  alg :: string
  kid :: string

text \<open>The \<^verbatim>\<open>issuer\<close> member of a credential: a bare string, or an object that may have an \<^verbatim>\<open>id\<close>.\<close>

datatype issuerField = IssuerString string | IssuerObject "string option"

text \<open>
  The payload of a signed credential. \<open>at_context\<close> is the member \<^verbatim>\<open>@context\<close>; \<open>exp\<close> and
  \<open>nbf\<close> are the registered claims in epoch seconds; \<open>None\<close> is an absent member.
\<close>

record 's credential =
  at_context :: "string list"
  type :: "string list"
  issuer :: "issuerField option"
  credentialSubject :: 's
  validFrom :: "string option"
  validUntil :: "string option"
  exp :: "int option"
  nbf :: "int option"

text \<open>
  What the verifier calls and does not define: the codec's \<^verbatim>\<open>parseJWS\<close> on the wire
  format \<open>'w\<close>, \<^verbatim>\<open>resolve\<close> of a key resolver, \<^verbatim>\<open>verify\<close> of the verifier it gives, and
  \<^verbatim>\<open>validateCredentialSchemas\<close>, which works on the resolver.
\<close>

record ('w, 's, 'r, 'f, 'k, 'o, 'v) collaborators =
  parseJWS :: "'w \<Rightarrow> error + (header \<times> 's credential)"
  resolve :: "'r \<Rightarrow> string \<Rightarrow> error + 'f"
  verifier_verify :: "'f \<Rightarrow> 'w \<Rightarrow> error + 's credential"
  validateCredentialSchemas ::
    "'s credential \<Rightarrow> ('k, 'o, 'v) resolver \<Rightarrow> (error + unit) \<times> ('k, 'o, 'v) resolver"

text \<open>
  The issuer DID of a credential, as \<^verbatim>\<open>verify\<close> extracts it: the two guards
  \<^verbatim>\<open>!credential.issuer\<close> and \<^verbatim>\<open>!issuerDid\<close> around the choice between the string and
  the \<^verbatim>\<open>id\<close> of the object. The empty string is falsy.
\<close>

definition issuerDidOf :: "'s credential \<Rightarrow> error + string" where
  "issuerDidOf credential =
     (case issuer credential of
        None \<Rightarrow> Inl (MissingIssuerError ''Credential must have an issuer'')
      | Some (IssuerString s) \<Rightarrow>
          if s = [] then Inl (MissingIssuerError ''Credential must have an issuer'')
          else Inr s
      | Some (IssuerObject None) \<Rightarrow> Inl (MissingIssuerError ''Credential issuer must have an id'')
      | Some (IssuerObject (Some s)) \<Rightarrow>
          if s = [] then Inl (MissingIssuerError ''Credential issuer must have an id'')
          else Inr s)"

text \<open>
  The steps of \<^verbatim>\<open>verify\<close> that follow the binding check: resolve the controller under
  the key identifier, resolve the assertion verifier for it, verify the signature and,
  when asked, validate the schemas.
\<close>

definition resolveAndVerify ::
  "('k, 'o, 'v, 'r) platform \<Rightarrow> ('w, 's, 'r, 'f, 'k, 'o, 'v) collaborators
     \<Rightarrow> ('k, 'o, 'v) resolver \<Rightarrow> 'w \<Rightarrow> string \<Rightarrow> bool
     \<Rightarrow> (error + 's credential) \<times> ('k, 'o, 'v) resolver" where
  "resolveAndVerify p c st jwsString assertionKeyId validateSchema =
     (case resolveController p st assertionKeyId of
        (Inl e, st1) \<Rightarrow> (Inl e, st1)
      | (Inr issuerKeys, st1) \<Rightarrow>
          (case resolve c (assertion issuerKeys) assertionKeyId of
             Inl e \<Rightarrow> (Inl e, st1)
           | Inr credentialVerifier \<Rightarrow>
               (case verifier_verify c credentialVerifier jwsString of
                  Inl e \<Rightarrow> (Inl e, st1)
                | Inr verifiedCredential \<Rightarrow>
                    if validateSchema then
                      (case validateCredentialSchemas c verifiedCredential st1 of
                         (Inl e, st2) \<Rightarrow> (Inl e, st2)
                       | (Inr u, st2) \<Rightarrow> (Inr verifiedCredential, st2))
                    else (Inr verifiedCredential, st1))))"

text \<open>
  \<^verbatim>\<open>credentialVerifierFromResolver(resolver).verify(jwsString, options)\<close>; the last
  argument is \<^verbatim>\<open>options?.validateSchema\<close> read as a boolean.
\<close>

definition verify ::
  "('k, 'o, 'v, 'r) platform \<Rightarrow> ('w, 's, 'r, 'f, 'k, 'o, 'v) collaborators
     \<Rightarrow> ('k, 'o, 'v) resolver \<Rightarrow> 'w \<Rightarrow> bool
     \<Rightarrow> (error + 's credential) \<times> ('k, 'o, 'v) resolver" where
  "verify p c st jwsString validateSchema =
     (case parseJWS c jwsString of
        Inl e \<Rightarrow> (Inl e, st)
      | Inr (header, credential) \<Rightarrow>
          (case issuerDidOf credential of
             Inl e \<Rightarrow> (Inl e, st)
           | Inr issuerDid \<Rightarrow>
               (let assertionKeyId = kid header in
                if \<not> startsWith assertionKeyId issuerDid
                then (Inl (IssuerKeyMismatchError issuerDid assertionKeyId), st)
                else resolveAndVerify p c st jwsString assertionKeyId validateSchema)))"

section \<open>Issuing a credential\<close>

text \<open>
  A private key with its \<^verbatim>\<open>kid\<close> and \<^verbatim>\<open>alg\<close> members, and the key file
  \<^verbatim>\<open>{assertion, authentication}\<close>.
\<close>

record 'm privateKey =
  pk_kid :: string
  pk_alg :: string
  pk_jwk :: 'm

record 'm privateKeys =
  assertion_key :: "'m privateKey option"
  authentication_key :: "'m privateKey option"

record issueOptions =
  opt_validFrom :: "string option"
  opt_validUntil :: "string option"

text \<open>
  What \<^verbatim>\<open>issueCredential\<close> calls and does not define: reading and parsing the key file,
  and \<^verbatim>\<open>signer(key).sign(credential, {kid})\<close>.
\<close>

record ('m, 's, 'w) issuing =
  readPrivateKeys :: "string \<Rightarrow> error + 'm privateKeys"
  sign :: "'m privateKey \<Rightarrow> 's credential \<Rightarrow> string \<Rightarrow> error + 'w"

text \<open>A string option read in a boolean position (\<^verbatim>\<open>if (options.validFrom)\<close>).\<close>

definition truthy :: "string option \<Rightarrow> bool" where
  "truthy v = (case v of None \<Rightarrow> False | Some s \<Rightarrow> s \<noteq> [])"

text \<open>The credential object that \<^verbatim>\<open>issueCredential\<close> builds before signing.\<close>

definition buildCredential ::
  "string \<Rightarrow> string list \<Rightarrow> 's \<Rightarrow> issueOptions \<Rightarrow> 's credential" where
  "buildCredential issuerDid credentialTypes credentialSubjectData options =
     (let credential =
            \<lparr> at_context = [''https://www.w3.org/ns/credentials/v2''],
              type = credentialTypes,
              issuer = Some (IssuerString issuerDid),
              credentialSubject = credentialSubjectData,
              validFrom = None, validUntil = None, exp = None, nbf = None \<rparr>;
          credential1 =
            (if truthy (opt_validFrom options)
             then credential\<lparr>validFrom := opt_validFrom options\<rparr> else credential)
      in if truthy (opt_validUntil options)
         then credential1\<lparr>validUntil := opt_validUntil options\<rparr> else credential1)"

definition issueCredential ::
  "('m, 's, 'w) issuing \<Rightarrow> string \<Rightarrow> string \<Rightarrow> string list \<Rightarrow> 's \<Rightarrow> issueOptions
     \<Rightarrow> error + 'w" where
  "issueCredential io issuerDid privateKeyPath credentialTypes credentialSubjectData options =
     (case readPrivateKeys io privateKeyPath of
        Inl e \<Rightarrow> Inl e
      | Inr privateKeys \<Rightarrow>
          (case assertion_key privateKeys of
             None \<Rightarrow> Inl AssertionKeyNotFoundError
           | Some assertionKey \<Rightarrow>
               sign io assertionKey
                 (buildCredential issuerDid credentialTypes credentialSubjectData options)
                 (issuerDid @ ''#'' @ pk_kid assertionKey)))"

text \<open>
  Modelled from the spec: the signed-object codec and the signer (sections 4.1 and 4.3),
  whose code is not among the source files. A compact signed object is kept as its three
  decoded segments: the header \<open>{alg, kid}\<close>, the payload and the signature;
  \<open>Unparseable\<close> stands for every string that does not split into three decodable
  segments. \<open>parseJWS_spec\<close> returns header and payload or fails with
  \<open>MalformedInputError\<close>; \<open>sign_spec\<close> puts the key's algorithm and the given key
  identifier into the header, keeps the payload as supplied and adds the signature that
  \<open>sg\<close> computes.
\<close>

datatype ('s, 'g) signedObject = Compact header "'s credential" 'g | Unparseable

definition parseJWS_spec :: "('s, 'g) signedObject \<Rightarrow> error + (header \<times> 's credential)" where
  "parseJWS_spec w = (case w of Compact h c g \<Rightarrow> Inr (h, c) | Unparseable \<Rightarrow> Inl MalformedInputError)"

definition sign_spec ::
  "('m privateKey \<Rightarrow> header \<Rightarrow> 's credential \<Rightarrow> 'g)
     \<Rightarrow> 'm privateKey \<Rightarrow> 's credential \<Rightarrow> string \<Rightarrow> error + ('s, 'g) signedObject" where
  "sign_spec sg key payload k =
     Inr (Compact \<lparr>alg = pk_alg key, kid = k\<rparr> payload (sg key \<lparr>alg = pk_alg key, kid = k\<rparr> payload))"

section \<open>The validity checks of presentation creation\<close>

text \<open>
  \<^verbatim>\<open>new Date(ms)\<close> for an integral number of milliseconds: the time value, or \<open>None\<close>
  for an invalid date, which is what a value beyond 8.64e15 milliseconds on either side
  of the epoch gives. \<open>dateLess\<close> and \<open>dateGreater\<close> are \<^verbatim>\<open><\<close> and \<^verbatim>\<open>>\<close> between such a
  date and the current time; with an invalid date both are false.
\<close>

definition newDate :: "int \<Rightarrow> int option" where
  "newDate ms = (if \<bar>ms\<bar> \<le> 8640000000000000 then Some ms else None)"

definition dateLess :: "int option \<Rightarrow> int \<Rightarrow> bool" where
  "dateLess d now = (case d of None \<Rightarrow> False | Some t \<Rightarrow> t < now)"

definition dateGreater :: "int option \<Rightarrow> int \<Rightarrow> bool" where
  "dateGreater d now = (case d of None \<Rightarrow> False | Some t \<Rightarrow> t > now)"

text \<open>
  Why \<^verbatim>\<open>createPresentation\<close> ends the process while it validates a credential: the
  three \<^verbatim>\<open>process.exit(1)\<close> of the loop body.
\<close>

datatype rejection =
    CredentialExpired int
  | CredentialNotYetValid int
  | CredentialVerificationFailed error

text \<open>
  The block ``Check expiration date'': \<open>now\<close> is the clock in milliseconds when the
  block runs. \<open>None\<close> lets the credential through.
\<close>

definition checkExpiration :: "'s credential \<Rightarrow> int \<Rightarrow> rejection option" where
  "checkExpiration credential now =
     (case exp credential of
        None \<Rightarrow> None
      | Some e \<Rightarrow>
          if e = 0 then None
          else if dateLess (newDate (e * 1000)) now then Some (CredentialExpired (e * 1000))
          else None)"

text \<open>The block ``Check validity start date''.\<close>

definition checkNotBefore :: "'s credential \<Rightarrow> int \<Rightarrow> rejection option" where
  "checkNotBefore credential now =
     (case nbf credential of
        None \<Rightarrow> None
      | Some n \<Rightarrow>
          if n = 0 then None
          else if dateGreater (newDate (n * 1000)) now then Some (CredentialNotYetValid (n * 1000))
          else None)"

text \<open>
  The body of the validation loop of \<^verbatim>\<open>createPresentation\<close> for one credential:
  \<^verbatim>\<open>verifier.verify(credentialJWT)\<close> without options, then the two checks, each with its
  own reading of the clock.
\<close>

definition validateCredential ::
  "('k, 'o, 'v, 'r) platform \<Rightarrow> ('w, 's, 'r, 'f, 'k, 'o, 'v) collaborators
     \<Rightarrow> ('k, 'o, 'v) resolver \<Rightarrow> 'w \<Rightarrow> int \<Rightarrow> int
     \<Rightarrow> (rejection + 's credential) \<times> ('k, 'o, 'v) resolver" where
  "validateCredential p c st credentialJWT now1 now2 =
     (case verify p c st credentialJWT False of
        (Inl e, st1) \<Rightarrow> (Inl (CredentialVerificationFailed e), st1)
      | (Inr credential, st1) \<Rightarrow>
          (case checkExpiration credential now1 of
             Some r \<Rightarrow> (Inl r, st1)
           | None \<Rightarrow>
               (case checkNotBefore credential now2 of
                  Some r \<Rightarrow> (Inl r, st1)
                | None \<Rightarrow> (Inr credential, st1))))"

section \<open>An example instance\<close>

text \<open>
  Concrete collaborators on which the definitions can be run. Keys are named by
  strings; a signature is valid for a public key when it equals the key's name. The
  network serves one controller document, for \<^verbatim>\<open>did:web:a.com\<close>; the compiler numbers
  the validators it returns; the key file \<^verbatim>\<open>keys.json\<close> holds one assertion key.
  The controller document has its three members as properties, all arrays; schema
  objects are numbered.
\<close>

definition exampleController :: "string controller" where
  "exampleController =
     \<lparr> verificationMethod =
         Some [\<lparr>vm_id = ''did:web:a.com#key-1'', publicKeyJwk = ''pub-1''\<rparr>],
       assertionMethod = Some [''did:web:a.com#key-1''],
       authentication = Some [] \<rparr>"

definition exampleDocument :: "string stored" where
  "exampleDocument =
     Doc exampleController
       [(''verificationMethod'', plainValue), (''assertionMethod'', plainValue),
        (''authentication'', plainValue)]"

definition examplePlatform :: "(string, nat, nat, (string \<times> string) list) platform" where
  "examplePlatform =
     \<lparr> fetch = (\<lambda>log url.
         if url = ''https://a.com/.well-known/did.json''
         then Some (Response True (Some exampleDocument)) else None),
       compile = (\<lambda>log s. Inr (length log)),
       createPublicKeyResolver = (\<lambda>keys role. Inr keys) \<rparr>"

text \<open>
  Modelled from the spec: the key resolver and its verifier (section 4.6), whose code is
  not among the source files, in the example's toy cryptography. \<open>resolve\<close> fails with
  \<open>KeyNotFoundError\<close> for a key identifier outside the set; the verifier fails with
  \<open>KeyMismatchError\<close> when the header's \<open>kid\<close> is not the identifier it was resolved for
  and with \<open>SignatureInvalidError\<close> when the signature does not match the key, and
  returns the payload otherwise. Schema validation is off.
\<close>

definition exampleCollaborators ::
  "((unit, string) signedObject, unit, (string \<times> string) list, string \<times> string,
    string, nat, nat) collaborators" where
  "exampleCollaborators =
     \<lparr> parseJWS = parseJWS_spec,
       resolve = (\<lambda>r k. case map_of r k of
                          None \<Rightarrow> Inl (CollaboratorError ''KeyNotFoundError'')
                        | Some key \<Rightarrow> Inr (k, key)),
       verifier_verify = (\<lambda>f w. case w of
                          Unparseable \<Rightarrow> Inl MalformedInputError
                        | Compact h c g \<Rightarrow>
                            if kid h \<noteq> fst f then Inl (CollaboratorError ''KeyMismatchError'')
                            else if g \<noteq> snd f then Inl (CollaboratorError ''SignatureInvalidError'')
                            else Inr c),
       validateCredentialSchemas = (\<lambda>c st. (Inr (), st)) \<rparr>"

definition exampleIssuing :: "(string, unit, (unit, string) signedObject) issuing" where
  "exampleIssuing =
     \<lparr> readPrivateKeys = (\<lambda>path.
         if path = ''keys.json''
         then Inr \<lparr> assertion_key = Some \<lparr>pk_kid = ''key-1'', pk_alg = ''ES256'', pk_jwk = ''pub-1''\<rparr>,
                    authentication_key = None \<rparr>
         else Inl (CollaboratorError ''ENOENT'')),
       sign = sign_spec (\<lambda>key h c. pk_jwk key) \<rparr>"

definition exampleResolver :: "(string, nat, nat) resolver" where
  "exampleResolver = createGenericResolver [] []"

definition noOptions :: issueOptions where
  "noOptions = \<lparr>opt_validFrom = None, opt_validUntil = None\<rparr>"

definition exampleHeader :: header where
  "exampleHeader = \<lparr>alg = ''ES256'', kid = ''did:web:a.com#key-1''\<rparr>"

definition exampleCredential :: "unit credential" where
  "exampleCredential =
     buildCredential ''did:web:a.com'' [''VerifiableCredential'', ''ExampleCredential''] () noOptions"

section \<open>Facts about the string operations\<close>

lemma startsWith_append: "startsWith (p @ s) p"
  by (induction p) auto

lemma startsWith_iff: "startsWith s p \<longleftrightarrow> (\<exists>r. s = p @ r)"
  by (induction s p rule: startsWith.induct) auto

lemma split_str_not_Nil: "split_str s sep \<noteq> []"
  by (induction s) (auto split: list.splits)

lemma split_str_no_sep: "sep \<notin> set x \<Longrightarrow> split_str x sep = [x]"
  by (induction x) auto

lemma split_str_append_sep:
  "sep \<notin> set x \<Longrightarrow> split_str (x @ sep # r) sep = x # split_str r sep"
  by (induction x) auto

lemma replace_str_prefix: "pat \<noteq> [] \<Longrightarrow> replace_str (pat @ r) pat rep = rep @ r"
  by (cases pat) (auto simp: startsWith_append)

lemma split_str_segments:
  "sep \<notin> set x \<Longrightarrow> \<forall>s \<in> set segs. sep \<notin> set s \<Longrightarrow>
   split_str (x @ concat (map (\<lambda>s. sep # s) segs)) sep = x # segs"
proof (induction segs arbitrary: x)
  case Nil
  then show ?case by (simp add: split_str_no_sep)
next
  case (Cons a segs)
  then show ?case by (simp add: split_str_append_sep)
qed

lemma join_str_slash:
  "segs \<noteq> [] \<Longrightarrow> c # join_str segs [c] = concat (map (\<lambda>s. c # s) segs)"
  by (induction segs "[c]" rule: join_str.induct) auto

lemma didOf_fragment: "CHR ''#'' \<notin> set x \<Longrightarrow> didOf (x @ CHR ''#'' # frag) = x"
  by (simp add: didOf_def split_str_append_sep)

lemma didOf_no_fragment: "CHR ''#'' \<notin> set x \<Longrightarrow> didOf x = x"
  by (simp add: didOf_def split_str_no_sep)

lemma didWebUrl_segments:
  assumes "CHR '':'' \<notin> set domain" "\<forall>s \<in> set segs. CHR '':'' \<notin> set s"
  shows "didWebUrl (''did:web:'' @ domain @ concat (map (\<lambda>s. CHR '':'' # s) segs)) =
         (if segs = [] then ''https://'' @ domain @ ''/.well-known/did.json''
          else ''https://'' @ domain @ concat (map (\<lambda>s. CHR ''/'' # s) segs) @ ''/did.json'')"
proof -
  have r: "replace_str (''did:web:'' @ domain @ concat (map (\<lambda>s. CHR '':'' # s) segs)) ''did:web:'' ''''
        = domain @ concat (map (\<lambda>s. CHR '':'' # s) segs)"
    using replace_str_prefix[of "''did:web:''" "domain @ concat (map (\<lambda>s. CHR '':'' # s) segs)" "''''"]
    by simp
  have s: "split_str (domain @ concat (map (\<lambda>s. CHR '':'' # s) segs)) CHR '':'' = domain # segs"
    using assms by (rule split_str_segments)
  show ?thesis
  proof (cases "segs = []")
    case True
    then show ?thesis unfolding didWebUrl_def r s by simp
  next
    case False
    then have "CHR ''/'' # join_str segs ''/'' = concat (map (\<lambda>s. CHR ''/'' # s) segs)"
      by (rule join_str_slash)
    with False show ?thesis unfolding didWebUrl_def r s by simp
  qed
qed

section \<open>The controller resolver\<close>

lemma didOf_did_web_nonempty: "startsWith i ''did:web:'' \<Longrightarrow> didOf i \<noteq> []"
proof -
  assume "startsWith i ''did:web:''"
  then obtain r where "i = ''did:web:'' @ r" by (auto simp: startsWith_iff)
  then show ?thesis by (simp add: didOf_def split: list.splits)
qed

text \<open>The DID under which the fetched document is stored is not the name \<^verbatim>\<open>__proto__\<close>.\<close>

lemma didOf_did_web_not_proto: "startsWith i ''did:web:'' \<Longrightarrow> didOf i \<noteq> ''__proto__''"
proof -
  assume "startsWith i ''did:web:''"
  then obtain r where "i = ''did:web:'' @ r" by (auto simp: startsWith_iff)
  then show ?thesis by (simp add: didOf_def split: list.splits)
qed

lemma readController_requests [simp]:
  "readController (st\<lparr>requests := r\<rparr>) k = readController st k"
  by (simp add: readController_def cong: option.case_cong)

lemma readController_own:
  "controllerLookup st k = Some v \<Longrightarrow> readController st k = Some v"
  by (simp add: readController_def)

lemma readController_None_own:
  "readController st k = None \<Longrightarrow> controllerLookup st k = None"
  by (cases "controllerLookup st k") (simp_all add: readController_def)

lemma readController_other_slot:
  "k \<noteq> j \<Longrightarrow>
   readController (st\<lparr>controllerLookup := (controllerLookup st)(j \<mapsto> v)\<rparr>) k = readController st k"
  by (simp add: readController_def cong: option.case_cong)

lemma locateController_miss:
  assumes "truthyController (readController st i) = None" "startsWith i ''did:web:''"
  shows "locateController p st i =
     (let url = didWebUrl (didOf i); st1 = st\<lparr>requests := requests st @ [url]\<rparr>
      in case fetch p (requests st) url of
           None \<Rightarrow> (None, st1)
         | Some response \<Rightarrow>
             if ok response then
               (case json response of
                  None \<Rightarrow> (None, st1)
                | Some fetchedController \<Rightarrow>
                    (truthyController (Some fetchedController),
                     st1\<lparr>controllerLookup := (controllerLookup st1)(didOf i \<mapsto> fetchedController)\<rparr>))
             else (None, st1))"
  using assms didOf_did_web_nonempty[OF assms(2)]
  by (simp add: locateController_def Let_def)

lemma requests_locateController_miss:
  assumes "truthyController (readController st i) = None" "startsWith i ''did:web:''"
  shows "requests (snd (locateController p st i)) = requests st @ [didWebUrl (didOf i)]"
  unfolding locateController_miss[OF assms]
  by (simp add: Let_def split: option.splits)

lemma snd_resolveController: "snd (resolveController p st i) = snd (locateController p st i)"
  by (simp add: resolveController_def Let_def split: prod.splits option.splits sum.splits)

lemma requests_resolveController:
  "requests (snd (resolveController p st i)) = requests (snd (locateController p st i))"
  by (simp add: snd_resolveController)

lemma controllerLookup_resolveController:
  "controllerLookup (snd (resolveController p st i)) = controllerLookup (snd (locateController p st i))"
  by (simp add: snd_resolveController)

text \<open>
  Claim C2. A key identifier \<^verbatim>\<open>did:web:<domain>#<frag>\<close> under which the table read
  gives nothing usable makes \<^verbatim>\<open>resolveController\<close> request
  \<^verbatim>\<open>https://<domain>/.well-known/did.json\<close>, and
  \<^verbatim>\<open>did:web:<domain>:<seg1>:...:<segN>#<frag>\<close> makes it request
  \<^verbatim>\<open>https://<domain>/<seg1>/.../<segN>/did.json\<close>: every colon after the domain starts
  one path segment. Exactly this one request is added to the trace.
\<close>

theorem resolveController_requests_did_web_url:
  assumes "CHR ''#'' \<notin> set domain" and "CHR '':'' \<notin> set domain"
    and "\<forall>s \<in> set segs. CHR ''#'' \<notin> set s \<and> CHR '':'' \<notin> set s"
    and "truthyController (readController st i) = None"
    and "i = ''did:web:'' @ domain @ concat (map (\<lambda>s. CHR '':'' # s) segs) @ CHR ''#'' # frag"
  shows "requests (snd (resolveController p st i)) =
           requests st @
           [if segs = [] then ''https://'' @ domain @ ''/.well-known/did.json''
            else ''https://'' @ domain @ concat (map (\<lambda>s. CHR ''/'' # s) segs) @ ''/did.json'']"
proof -
  let ?did = "''did:web:'' @ domain @ concat (map (\<lambda>s. CHR '':'' # s) segs)"
  have nohash: "CHR ''#'' \<notin> set ?did" using assms(1,3) by auto
  have i: "i = ?did @ CHR ''#'' # frag" using assms(5) by simp
  have did: "didOf i = ?did" unfolding i using nohash by (rule didOf_fragment)
  have sw: "startsWith i ''did:web:''" unfolding i by (simp add: startsWith_iff)
  have url: "didWebUrl ?did =
         (if segs = [] then ''https://'' @ domain @ ''/.well-known/did.json''
          else ''https://'' @ domain @ concat (map (\<lambda>s. CHR ''/'' # s) segs) @ ''/did.json'')"
    using assms(2,3) by (intro didWebUrl_segments) auto
  show ?thesis
    unfolding requests_resolveController requests_locateController_miss[OF assms(4) sw] did url ..
qed

lemma exampleResolver_fresh:
  "controllerLookup exampleResolver = Map.empty" "controllerProto exampleResolver = None"
  "schemaLookup exampleResolver = Map.empty" "schemaProto exampleResolver = None"
  "compiledSchemaCache exampleResolver = Map.empty"
  "requests exampleResolver = []" "compiles exampleResolver = []"
  by (simp_all add: exampleResolver_def createGenericResolver_def)

lemma readController_fresh_did_web:
  "startsWith k ''did:web:'' \<Longrightarrow> readController exampleResolver k = None"
  by (auto simp: readController_def exampleResolver_fresh objectPrototypeNames_def)

theorem resolveController_requests_did_web_url_witness:
  "requests (snd (resolveController examplePlatform exampleResolver ''did:web:example.com:org:alpha#key-1'')) =
     [''https://example.com/org/alpha/did.json'']"
proof -
  have h1: "CHR ''#'' \<notin> set ''example.com''" by simp
  have h2: "CHR '':'' \<notin> set ''example.com''" by simp
  have h3: "\<forall>s \<in> set [''org'', ''alpha'']. CHR ''#'' \<notin> set s \<and> CHR '':'' \<notin> set s" by simp
  have h4: "truthyController (readController exampleResolver ''did:web:example.com:org:alpha#key-1'') = None"
    by (simp add: readController_fresh_did_web truthyController_def)
  have h5: "''did:web:example.com:org:alpha#key-1'' =
      ''did:web:'' @ ''example.com'' @ concat (map (\<lambda>s. CHR '':'' # s) [''org'', ''alpha'']) @ CHR ''#'' # ''key-1''"
    by simp
  show ?thesis
    using resolveController_requests_did_web_url[OF h1 h2 h3 h4 h5, of examplePlatform]
    by (simp add: exampleResolver_fresh)
qed


lemma resolveController_not_located:
  "fst (locateController p st i) = None \<Longrightarrow>
   resolveController p st i = (Inl (ControllerNotFoundError i), snd (locateController p st i))"
  by (cases "locateController p st i") (simp add: resolveController_def)

lemma locateController_not_did_web:
  "truthyController (readController st i) = None \<Longrightarrow> \<not> startsWith i ''did:web:'' \<Longrightarrow>
   locateController p st i = (None, st)"
  by (simp add: locateController_def)

lemma locateController_fetch_fails:
  assumes "truthyController (readController st i) = None" "startsWith i ''did:web:''"
    and "case fetch p (requests st) (didWebUrl (didOf i)) of
           None \<Rightarrow> True | Some r \<Rightarrow> \<not> ok r \<or> json r = None"
  shows "locateController p st i = (None, st\<lparr>requests := requests st @ [didWebUrl (didOf i)]\<rparr>)"
  unfolding locateController_miss[OF assms(1,2)] using assms(3)
  by (auto simp: Let_def split: option.splits)

lemma resolveController_fails_state:
  assumes miss: "truthyController (readController st i) = None"
    and fails: "startsWith i ''did:web:'' \<Longrightarrow>
           (case fetch p (requests st) (didWebUrl (didOf i)) of
              None \<Rightarrow> True | Some r \<Rightarrow> \<not> ok r \<or> json r = None)"
  shows "resolveController p st i =
           (Inl (ControllerNotFoundError i),
            st\<lparr>requests := requests st @
                   (if startsWith i ''did:web:'' then [didWebUrl (didOf i)] else [])\<rparr>)"
proof (cases "startsWith i ''did:web:''")
  case True
  have l: "locateController p st i = (None, st\<lparr>requests := requests st @ [didWebUrl (didOf i)]\<rparr>)"
    using miss True fails[OF True] by (rule locateController_fetch_fails)
  show ?thesis using resolveController_not_located[of p st i] True by (simp add: l)
next
  case False
  have l: "locateController p st i = (None, st)"
    using miss False by (rule locateController_not_did_web)
  show ?thesis using resolveController_not_located[of p st i] False by (simp add: l)
qed

text \<open>
  Claim C4. When the table read under the identifier gives nothing usable and, for a
  did:web identifier, the request fails, answers with a non-success status or carries a
  body that is not JSON, \<^verbatim>\<open>resolveController\<close> fails with \<open>ControllerNotFoundError\<close> and
  leaves the three tables and their prototypes as they were: nothing is stored for the
  failure. A later call with the same identifier, whatever the network then answers,
  requests the same URL again.
\<close>

theorem resolveController_not_found_no_negative_cache:
  assumes miss: "truthyController (readController st i) = None"
    and fails: "startsWith i ''did:web:'' \<Longrightarrow>
           (case fetch p (requests st) (didWebUrl (didOf i)) of
              None \<Rightarrow> True | Some r \<Rightarrow> \<not> ok r \<or> json r = None)"
  shows "fst (resolveController p st i) = Inl (ControllerNotFoundError i) \<and>
         controllerLookup (snd (resolveController p st i)) = controllerLookup st \<and>
         controllerProto (snd (resolveController p st i)) = controllerProto st \<and>
         schemaLookup (snd (resolveController p st i)) = schemaLookup st \<and>
         schemaProto (snd (resolveController p st i)) = schemaProto st \<and>
         compiledSchemaCache (snd (resolveController p st i)) = compiledSchemaCache st \<and>
         (startsWith i ''did:web:'' \<longrightarrow>
            requests (snd (resolveController p st i)) = requests st @ [didWebUrl (didOf i)] \<and>
            requests (snd (resolveController p' (snd (resolveController p st i)) i)) =
              requests st @ [didWebUrl (didOf i), didWebUrl (didOf i)])"
proof -
  let ?st1 = "snd (resolveController p st i)"
  have eq: "resolveController p st i =
           (Inl (ControllerNotFoundError i),
            st\<lparr>requests := requests st @
                   (if startsWith i ''did:web:'' then [didWebUrl (didOf i)] else [])\<rparr>)"
    using miss fails by (rule resolveController_fails_state)
  have rd: "readController ?st1 i = readController st i" by (simp add: eq)
  have again: "requests (snd (resolveController p' ?st1 i)) =
              requests st @ [didWebUrl (didOf i), didWebUrl (didOf i)]"
    if sw: "startsWith i ''did:web:''"
  proof -
    have m1: "truthyController (readController ?st1 i) = None" using miss by (simp add: rd)
    have "requests (snd (resolveController p' ?st1 i)) =
          requests (snd (locateController p' ?st1 i))"
      by (rule requests_resolveController)
    also have "\<dots> = requests ?st1 @ [didWebUrl (didOf i)]"
      by (rule requests_locateController_miss[OF m1 sw])
    finally show ?thesis using sw by (simp add: eq)
  qed
  show ?thesis using again by (simp add: eq)
qed

lemma didOf_example_b: "didOf ''did:web:b.com#key-1'' = ''did:web:b.com''"
  using didOf_fragment[of "''did:web:b.com''" "''key-1''"] by simp

lemma didWebUrl_example_b: "didWebUrl ''did:web:b.com'' = ''https://b.com/.well-known/did.json''"
  using didWebUrl_segments[of "''b.com''" "[]"] by simp

theorem resolveController_not_found_no_negative_cache_witness:
  "fst (resolveController examplePlatform exampleResolver ''did:web:b.com#key-1'') =
     Inl (ControllerNotFoundError ''did:web:b.com#key-1'') \<and>
   controllerLookup (snd (resolveController examplePlatform exampleResolver ''did:web:b.com#key-1'')) =
     controllerLookup exampleResolver \<and>
   requests (snd (resolveController examplePlatform
       (snd (resolveController examplePlatform exampleResolver ''did:web:b.com#key-1''))
       ''did:web:b.com#key-1'')) =
     [''https://b.com/.well-known/did.json'', ''https://b.com/.well-known/did.json'']"
proof -
  have sw: "startsWith ''did:web:b.com#key-1'' ''did:web:''" by simp
  have miss: "truthyController (readController exampleResolver ''did:web:b.com#key-1'') = None"
    by (simp add: readController_fresh_did_web truthyController_def)
  have fails: "startsWith ''did:web:b.com#key-1'' ''did:web:'' \<Longrightarrow>
      (case fetch examplePlatform (requests exampleResolver)
              (didWebUrl (didOf ''did:web:b.com#key-1'')) of
         None \<Rightarrow> True | Some r \<Rightarrow> \<not> ok r \<or> json r = None)"
    by (simp add: didOf_example_b didWebUrl_example_b examplePlatform_def)
  show ?thesis
    using resolveController_not_found_no_negative_cache[OF miss fails, of examplePlatform] sw
    by (simp add: exampleResolver_fresh didOf_example_b didWebUrl_example_b)
qed

lemma locateController_fetched:
  assumes "truthyController (readController st i) = None" "startsWith i ''did:web:''"
    and "fetch p (requests st) (didWebUrl (didOf i)) = Some (Response True (Some (Doc d ps)))"
  shows "locateController p st i =
           (Some d, st\<lparr>requests := requests st @ [didWebUrl (didOf i)],
                       controllerLookup := (controllerLookup st)(didOf i \<mapsto> Doc d ps)\<rparr>)"
  unfolding locateController_miss[OF assms(1,2)] using assms(3)
  by (simp add: Let_def truthyController_def)

text \<open>
  The fetched document is stored under the DID, the lookup reads under the identifier
  as given: with a fragment the two differ, and the next call misses again.
\<close>

lemma resolveController_fragment_refetches:
  assumes miss: "readController st i = None" and sw: "startsWith i ''did:web:''"
    and frag: "didOf i \<noteq> i"
    and fetched: "fetch p (requests st) (didWebUrl (didOf i)) = Some (Response True (Some (Doc d ps)))"
  shows "controllerLookup (snd (resolveController p st i)) (didOf i) = Some (Doc d ps) \<and>
         controllerLookup (snd (resolveController p st i)) i = None \<and>
         readController (snd (resolveController p st i)) i = None \<and>
         requests (snd (resolveController p' (snd (resolveController p st i)) i)) =
           requests st @ [didWebUrl (didOf i), didWebUrl (didOf i)]"
proof -
  let ?st1 = "snd (resolveController p st i)"
  have m0: "truthyController (readController st i) = None"
    using miss by (simp add: truthyController_def)
  have l: "locateController p st i =
           (Some d, st\<lparr>requests := requests st @ [didWebUrl (didOf i)],
                       controllerLookup := (controllerLookup st)(didOf i \<mapsto> Doc d ps)\<rparr>)"
    using m0 sw fetched by (rule locateController_fetched)
  have st1: "?st1 = st\<lparr>requests := requests st @ [didWebUrl (didOf i)],
                       controllerLookup := (controllerLookup st)(didOf i \<mapsto> Doc d ps)\<rparr>"
    unfolding snd_resolveController by (simp add: l)
  have lk: "controllerLookup ?st1 = (controllerLookup st)(didOf i \<mapsto> Doc d ps)"
    by (simp add: st1)
  have rq: "requests ?st1 = requests st @ [didWebUrl (didOf i)]"
    by (simp add: st1)
  have own0: "controllerLookup st i = None" using miss by (rule readController_None_own)
  have at_i: "controllerLookup ?st1 i = None" using own0 frag by (simp add: lk)
  have "readController ?st1 i =
        readController (st\<lparr>controllerLookup := (controllerLookup st)(didOf i \<mapsto> Doc d ps)\<rparr>) i"
    by (simp add: st1 readController_def cong: option.case_cong)
  also have "\<dots> = readController st i" using frag by (intro readController_other_slot) simp
  finally have rd: "readController ?st1 i = None" using miss by simp
  have m1: "truthyController (readController ?st1 i) = None"
    by (simp add: rd truthyController_def)
  have "requests (snd (resolveController p' ?st1 i)) =
        requests (snd (locateController p' ?st1 i))"
    by (rule requests_resolveController)
  also have "\<dots> = requests ?st1 @ [didWebUrl (didOf i)]"
    by (rule requests_locateController_miss[OF m1 sw])
  finally have "requests (snd (resolveController p' ?st1 i)) =
      requests st @ [didWebUrl (didOf i), didWebUrl (didOf i)]"
    by (simp add: rq)
  moreover have "controllerLookup ?st1 (didOf i) = Some (Doc d ps)" by (simp add: lk)
  ultimately show ?thesis using at_i rd by blast
qed

text \<open>
  Without a fragment the identifier is the DID, the two keys agree, and the second call
  is served from the store without a request.
\<close>

lemma resolveController_no_fragment_served_locally:
  assumes miss: "readController st i = None" and sw: "startsWith i ''did:web:''"
    and nofrag: "didOf i = i"
    and fetched: "fetch p (requests st) (didWebUrl i) = Some (Response True (Some (Doc d ps)))"
  shows "requests (snd (resolveController p' (snd (resolveController p st i)) i)) =
           requests st @ [didWebUrl i]"
proof -
  let ?st1 = "snd (resolveController p st i)"
  have m0: "truthyController (readController st i) = None"
    using miss by (simp add: truthyController_def)
  have l: "locateController p st i =
           (Some d, st\<lparr>requests := requests st @ [didWebUrl (didOf i)],
                       controllerLookup := (controllerLookup st)(didOf i \<mapsto> Doc d ps)\<rparr>)"
    using m0 sw fetched by (intro locateController_fetched) (simp_all add: nofrag)
  have st1: "?st1 = st\<lparr>requests := requests st @ [didWebUrl i],
                       controllerLookup := (controllerLookup st)(i \<mapsto> Doc d ps)\<rparr>"
    unfolding snd_resolveController by (simp add: l nofrag)
  have lk: "readController ?st1 i = Some (Doc d ps)"
    by (rule readController_own) (simp add: st1)
  have rq: "requests ?st1 = requests st @ [didWebUrl i]" by (simp add: st1)
  have "locateController p' ?st1 i = (Some d, ?st1)"
    by (simp add: locateController_def lk truthyController_def)
  then have "requests (snd (locateController p' ?st1 i)) = requests ?st1" by simp
  then show ?thesis
    using requests_resolveController[of p' ?st1 i] by (simp add: rq)
qed

lemma didOf_example_a: "didOf ''did:web:a.com#key-1'' = ''did:web:a.com''"
  using didOf_fragment[of "''did:web:a.com''" "''key-1''"] by simp

lemma didWebUrl_example_a: "didWebUrl ''did:web:a.com'' = ''https://a.com/.well-known/did.json''"
  using didWebUrl_segments[of "''a.com''" "[]"] by simp

text \<open>
  Claim C3. The claim says that after a call has fetched and stored the document of
  \<^verbatim>\<open>did:web:a.com\<close> for the key identifier \<^verbatim>\<open>did:web:a.com#key-1\<close>, a second call
  with that identifier is served from the store. The code does not do so: the document is
  stored under \<^verbatim>\<open>did:web:a.com\<close>, the slot of the key identifier stays empty, the read
  under it gives \<^verbatim>\<open>undefined\<close>, and the second call requests the document again.
\<close>

theorem resolveController_second_call_fetches_again:
  "controllerLookup (snd (resolveController examplePlatform exampleResolver ''did:web:a.com#key-1''))
     ''did:web:a.com'' = Some exampleDocument \<and>
   controllerLookup (snd (resolveController examplePlatform exampleResolver ''did:web:a.com#key-1''))
     ''did:web:a.com#key-1'' = None \<and>
   readController (snd (resolveController examplePlatform exampleResolver ''did:web:a.com#key-1''))
     ''did:web:a.com#key-1'' = None \<and>
   requests (snd (resolveController examplePlatform
       (snd (resolveController examplePlatform exampleResolver ''did:web:a.com#key-1''))
       ''did:web:a.com#key-1'')) =
     [''https://a.com/.well-known/did.json'', ''https://a.com/.well-known/did.json'']"
proof -
  have sw: "startsWith ''did:web:a.com#key-1'' ''did:web:''" by simp
  have miss: "readController exampleResolver ''did:web:a.com#key-1'' = None"
    using sw by (rule readController_fresh_did_web)
  have frag: "didOf ''did:web:a.com#key-1'' \<noteq> ''did:web:a.com#key-1''"
    by (simp add: didOf_example_a)
  have fetched: "fetch examplePlatform (requests exampleResolver)
        (didWebUrl (didOf ''did:web:a.com#key-1'')) =
      Some (Response True (Some (Doc exampleController
       [(''verificationMethod'', plainValue), (''assertionMethod'', plainValue),
        (''authentication'', plainValue)])))"
    by (simp add: didOf_example_a didWebUrl_example_a examplePlatform_def exampleDocument_def)
  show ?thesis
    using resolveController_fragment_refetches[OF miss sw frag fetched, of examplePlatform]
    by (simp add: exampleResolver_fresh didOf_example_a didWebUrl_example_a exampleDocument_def)
qed

section \<open>The schema resolver\<close>

lemma readCache_None: "readCache st i = None \<longleftrightarrow>
    compiledSchemaCache st i = None \<and> i \<notin> set objectPrototypeNames"
  by (simp add: readCache_def split: option.splits)

text \<open>
  A second \<^verbatim>\<open>resolveSchema\<close> returns what the first returned and changes nothing, in
  every state: the caching itself works.
\<close>

lemma resolveSchema_second_call_identical:
  assumes "resolveSchema p st i = (Inr v, st1)"
  shows "resolveSchema p st1 i = (Inr v, st1)"
proof (cases "readCache st i")
  case (Some x)
  with assms have "v = x" "st1 = st" by (simp_all add: resolveSchema_def)
  with Some show ?thesis by (simp add: resolveSchema_def)
next
  case None
  with assms obtain s compiled where
    "compile p (compiles st) s = Inr compiled" and v: "v = Compiled compiled" and
    st1: "st1 = st\<lparr>compiledSchemaCache := (compiledSchemaCache st)(i \<mapsto> compiled),
                    compiles := compiles st @ [s]\<rparr>"
    by (auto simp: resolveSchema_def split: option.splits if_splits sum.splits)
  have "readCache st1 i = Some (Compiled compiled)" by (simp add: st1 readCache_def)
  then show ?thesis by (simp add: resolveSchema_def v)
qed

text \<open>
  Where the not-found error does come: the name is not an inherited one, nothing is
  cached under it, and the read of the schema table gives \<^verbatim>\<open>undefined\<close>.
\<close>

lemma resolveSchema_not_found:
  "compiledSchemaCache st i = None \<Longrightarrow> i \<notin> set objectPrototypeNames \<Longrightarrow> readSchema st i = None \<Longrightarrow>
   resolveSchema p st i = (Inl (SchemaNotFoundError i), st)"
  by (simp add: resolveSchema_def readCache_def)

text \<open>For an inherited name without a cached validator the cache read gives the member.\<close>

lemma resolveSchema_inherited:
  "compiledSchemaCache st i = None \<Longrightarrow> i \<in> set objectPrototypeNames \<Longrightarrow>
   resolveSchema p st i = (Inr (InheritedMember i), st)"
  by (simp add: resolveSchema_def readCache_def)

lemma addSchema_own:
  "i \<noteq> ''__proto__'' \<Longrightarrow>
   addSchema st i s = st\<lparr>schemaLookup := (schemaLookup st)(i \<mapsto> s),
                         compiledSchemaCache := (compiledSchemaCache st)(i := None)\<rparr>"
  by (simp add: addSchema_def writeSchema_def)

lemma compiledSchemaCache_addSchema: "compiledSchemaCache (addSchema st i s) i = None"
  by (simp add: addSchema_def)

text \<open>
  Where \<^verbatim>\<open>addSchema\<close> does force the new schema to be compiled: the name is not an
  inherited one and the schema is not the boolean schema \<^verbatim>\<open>false\<close>.
\<close>

lemma addSchema_then_resolveSchema:
  assumes "i \<notin> set objectPrototypeNames" "s \<noteq> SchemaBool False" "s \<noteq> Primitive False"
  shows "resolveSchema p (addSchema st i s) i =
        (case compile p (compiles st) s of
           Inl e \<Rightarrow> (Inl e, (addSchema st i s)\<lparr>compiles := compiles st @ [s]\<rparr>)
         | Inr v \<Rightarrow>
             (Inr (Compiled v),
              (addSchema st i s)\<lparr>compiledSchemaCache := (compiledSchemaCache st)(i \<mapsto> v),
                                 compiles := compiles st @ [s]\<rparr>))"
proof -
  from assms(1) have np: "i \<noteq> ''__proto__''" by (auto simp: objectPrototypeNames_def)
  show ?thesis using assms
    by (simp add: addSchema_own[OF np] resolveSchema_def readCache_def readSchema_def
        split: sum.splits)
qed

lemma example_first_resolveSchema:
  "resolveSchema examplePlatform (addSchema exampleResolver ''urn:s1'' (SchemaObject 7 [])) ''urn:s1'' =
     (Inr (Compiled 0), (addSchema exampleResolver ''urn:s1'' (SchemaObject 7 []))
               \<lparr>compiledSchemaCache := [''urn:s1'' \<mapsto> 0], compiles := [SchemaObject 7 []]\<rparr>)"
proof -
  have a: "''urn:s1'' \<notin> set objectPrototypeNames" by (simp add: objectPrototypeNames_def)
  show ?thesis
    using addSchema_then_resolveSchema[OF a, of "SchemaObject 7 []" examplePlatform exampleResolver]
    by (simp add: examplePlatform_def exampleResolver_fresh)
qed

text \<open>
  Claim C5. The claim says that \<^verbatim>\<open>resolveSchema\<close> fails with \<open>SchemaNotFoundError\<close> for an
  unregistered identifier and gives a registered one its compiled validator, the same on
  every call. The code does not do so in two places. In a fresh resolver, where no
  schema is registered, \<^verbatim>\<open>resolveSchema('constructor')\<close> raises nothing: the cache is a
  plain object, its read gives the inherited member, and that is returned. And an
  identifier registered with the boolean schema \<^verbatim>\<open>false\<close> gets no validator: the guard
  \<^verbatim>\<open>!schema\<close> takes it for a missing one and raises \<open>SchemaNotFoundError\<close>.
\<close>

theorem resolveSchema_unregistered_returns_inherited_member:
  "schemaLookup exampleResolver ''constructor'' = None \<and>
   fst (resolveSchema examplePlatform exampleResolver ''constructor'') =
     Inr (InheritedMember ''constructor'') \<and>
   fst (resolveSchema examplePlatform
          (addSchema exampleResolver ''urn:s1'' (SchemaBool False)) ''urn:s1'') =
     Inl (SchemaNotFoundError ''urn:s1'')"
proof -
  have a: "schemaLookup exampleResolver ''constructor'' = None"
    by (simp add: exampleResolver_fresh)
  have b: "fst (resolveSchema examplePlatform exampleResolver ''constructor'') =
     Inr (InheritedMember ''constructor'')"
    by (simp add: resolveSchema_inherited exampleResolver_fresh objectPrototypeNames_def)
  have c: "fst (resolveSchema examplePlatform
          (addSchema exampleResolver ''urn:s1'' (SchemaBool False)) ''urn:s1'') =
     Inl (SchemaNotFoundError ''urn:s1'')"
    by (simp add: addSchema_own resolveSchema_def readCache_def readSchema_def
        objectPrototypeNames_def)
  show ?thesis using a b c by blast
qed

text \<open>
  Claim C6. The claim says that after \<^verbatim>\<open>addSchema(id, schema)\<close> the next
  \<^verbatim>\<open>resolveSchema(id)\<close> compiles the new schema. The code does not do so in two places.
  With a validator cached for \<^verbatim>\<open>urn:s1\<close>, \<^verbatim>\<open>addSchema('urn:s1', false)\<close> removes the cache
  entry, but the next \<^verbatim>\<open>resolveSchema\<close> raises \<open>SchemaNotFoundError\<close> and the compiler is
  not called. And after \<^verbatim>\<open>addSchema('constructor', S)\<close> the schema is stored, but
  \<^verbatim>\<open>delete\<close> does not remove what the cache inherits under that name: the next
  \<^verbatim>\<open>resolveSchema\<close> returns the inherited member and compiles nothing.
\<close>

theorem addSchema_new_schema_not_compiled:
  "compiledSchemaCache
     (snd (resolveSchema examplePlatform
             (addSchema exampleResolver ''urn:s1'' (SchemaObject 7 [])) ''urn:s1'')) ''urn:s1'' =
     Some 0 \<and>
   fst (resolveSchema examplePlatform
     (addSchema (snd (resolveSchema examplePlatform
             (addSchema exampleResolver ''urn:s1'' (SchemaObject 7 [])) ''urn:s1''))
        ''urn:s1'' (SchemaBool False)) ''urn:s1'') = Inl (SchemaNotFoundError ''urn:s1'') \<and>
   compiles (snd (resolveSchema examplePlatform
     (addSchema (snd (resolveSchema examplePlatform
             (addSchema exampleResolver ''urn:s1'' (SchemaObject 7 [])) ''urn:s1''))
        ''urn:s1'' (SchemaBool False)) ''urn:s1'')) = [SchemaObject 7 []] \<and>
   schemaLookup (addSchema exampleResolver ''constructor'' (SchemaObject 7 [])) ''constructor'' =
     Some (SchemaObject 7 []) \<and>
   fst (resolveSchema examplePlatform
          (addSchema exampleResolver ''constructor'' (SchemaObject 7 [])) ''constructor'') =
     Inr (InheritedMember ''constructor'') \<and>
   compiles (snd (resolveSchema examplePlatform
          (addSchema exampleResolver ''constructor'' (SchemaObject 7 [])) ''constructor'')) = []"
proof -
  let ?st = "addSchema exampleResolver ''urn:s1'' (SchemaObject 7 []) :: (string, nat, nat) resolver"
  let ?st1 = "?st\<lparr>compiledSchemaCache := [''urn:s1'' \<mapsto> 0], compiles := [SchemaObject 7 []]\<rparr>"
  let ?c = "addSchema exampleResolver ''constructor'' (SchemaObject 7 []) :: (string, nat, nat) resolver"
  have old: "compiledSchemaCache ?st1 ''urn:s1'' = Some 0" by simp
  have r: "resolveSchema examplePlatform (addSchema ?st1 ''urn:s1'' (SchemaBool False)) ''urn:s1'' =
      (Inl (SchemaNotFoundError ''urn:s1''), addSchema ?st1 ''urn:s1'' (SchemaBool False))"
    by (simp add: addSchema_own resolveSchema_def readCache_def readSchema_def
        objectPrototypeNames_def)
  have lg: "compiles (addSchema ?st1 ''urn:s1'' (SchemaBool False)) = [SchemaObject 7 []]"
    by (simp add: addSchema_own)
  have stored: "schemaLookup ?c ''constructor'' = Some (SchemaObject 7 [])"
    by (simp add: addSchema_own)
  have cache: "compiledSchemaCache ?c ''constructor'' = None"
    by (rule compiledSchemaCache_addSchema)
  have inh: "resolveSchema examplePlatform ?c ''constructor'' = (Inr (InheritedMember ''constructor''), ?c)"
    using cache by (rule resolveSchema_inherited) (simp add: objectPrototypeNames_def)
  have lg2: "compiles ?c = []" by (simp add: addSchema_own exampleResolver_fresh)
  show ?thesis
    unfolding example_first_resolveSchema
    using old stored by (simp add: r lg inh lg2)
qed

section \<open>The credential verifier\<close>

lemma verify_parsed:
  "parseJWS c w = Inr (h, cred) \<Longrightarrow> issuerDidOf cred = Inl e \<Longrightarrow>
   verify p c st w vs = (Inl e, st)"
  by (simp add: verify_def)

lemma verify_binding_fails:
  "parseJWS c w = Inr (h, cred) \<Longrightarrow> issuerDidOf cred = Inr d \<Longrightarrow> \<not> startsWith (kid h) d \<Longrightarrow>
   verify p c st w vs = (Inl (IssuerKeyMismatchError d (kid h)), st)"
  by (simp add: verify_def)

lemma issuerDidOf_normalized:
  "issuer cred = Some (IssuerString d) \<or> issuer cred = Some (IssuerObject (Some d)) \<Longrightarrow>
   d \<noteq> [] \<Longrightarrow> issuerDidOf cred = Inr d"
  by (auto simp: issuerDidOf_def)

lemma verify_binding_holds:
  "parseJWS c w = Inr (h, cred) \<Longrightarrow> issuerDidOf cred = Inr d \<Longrightarrow> startsWith (kid h) d \<Longrightarrow>
   verify p c st w vs = resolveAndVerify p c st w (kid h) vs"
  by (simp add: verify_def)

text \<open>
  Claim C7. For a signed object that parses, a payload without an issuer, or with an
  issuer object without an \<^verbatim>\<open>id\<close> (an empty string counts as absent in both places), makes
  \<^verbatim>\<open>verify\<close> fail with \<open>MissingIssuerError\<close> in the resolver state it started from,
  whatever the resolver, the key resolver and the signature verifier would do: none of
  them is reached. A non-empty issuer is normalized to the DID string \<open>d\<close>, from the bare
  string as from the object \<^verbatim>\<open>{id: DID}\<close>, and \<^verbatim>\<open>verify\<close> goes on with it: it fails the
  binding check against \<open>d\<close> or, when the \<^verbatim>\<open>kid\<close> starts with \<open>d\<close>, does the steps that
  follow the check.
\<close>

theorem verify_missing_issuer:
  assumes "parseJWS c w = Inr (h, cred)"
  shows "(issuer cred = None \<or> issuer cred = Some (IssuerObject None) \<or>
          issuer cred = Some (IssuerString []) \<or> issuer cred = Some (IssuerObject (Some [])) \<longrightarrow>
            (\<exists>m. verify p c st w vs = (Inl (MissingIssuerError m), st))) \<and>
         (\<forall>d. d \<noteq> [] \<and>
            (issuer cred = Some (IssuerString d) \<or> issuer cred = Some (IssuerObject (Some d))) \<longrightarrow>
            issuerDidOf cred = Inr d \<and>
            verify p c st w vs =
              (if startsWith (kid h) d then resolveAndVerify p c st w (kid h) vs
               else (Inl (IssuerKeyMismatchError d (kid h)), st)))"
proof -
  have missing: "\<exists>m. verify p c st w vs = (Inl (MissingIssuerError m), st)"
    if "issuer cred = None \<or> issuer cred = Some (IssuerObject None) \<or>
        issuer cred = Some (IssuerString []) \<or> issuer cred = Some (IssuerObject (Some []))"
  proof -
    from that have "\<exists>m. issuerDidOf cred = Inl (MissingIssuerError m)"
      by (auto simp: issuerDidOf_def)
    then obtain m where "issuerDidOf cred = Inl (MissingIssuerError m)" ..
    with assms have "verify p c st w vs = (Inl (MissingIssuerError m), st)"
      by (rule verify_parsed)
    then show ?thesis ..
  qed
  have present: "issuerDidOf cred = Inr d \<and>
            verify p c st w vs =
              (if startsWith (kid h) d then resolveAndVerify p c st w (kid h) vs
               else (Inl (IssuerKeyMismatchError d (kid h)), st))"
    if "d \<noteq> [] \<and>
        (issuer cred = Some (IssuerString d) \<or> issuer cred = Some (IssuerObject (Some d)))" for d
  proof -
    from that have n: "issuerDidOf cred = Inr d" by (intro issuerDidOf_normalized) auto
    show ?thesis
      using n verify_binding_holds[OF assms n] verify_binding_fails[OF assms n] by simp
  qed
  show ?thesis using missing present by blast
qed

text \<open>
  Claim C1. For a signed object that parses and whose payload names the issuer DID
  \<open>d\<close>, as a bare string or as the \<^verbatim>\<open>id\<close> of an object: when the header's \<^verbatim>\<open>kid\<close> does
  not start with \<open>d\<close>, \<^verbatim>\<open>verify\<close> fails with \<open>IssuerKeyMismatchError\<close> in the state it
  started from, for every network, key resolver and signature verifier, so also when the
  signature is valid. It returns a credential, and it issues a request, only when the
  \<^verbatim>\<open>kid\<close> starts with \<open>d\<close>.
\<close>

theorem verify_issuer_key_binding:
  assumes parsed: "parseJWS c w = Inr (h, cred)"
    and iss: "issuer cred = Some (IssuerString d) \<or> issuer cred = Some (IssuerObject (Some d))"
  shows "(\<not> startsWith (kid h) d \<longrightarrow>
            verify p c st w vs = (Inl (IssuerKeyMismatchError d (kid h)), st)) \<and>
         (\<forall>cr st1. verify p c st w vs = (Inr cr, st1) \<longrightarrow> startsWith (kid h) d) \<and>
         (requests (snd (verify p c st w vs)) \<noteq> requests st \<longrightarrow> startsWith (kid h) d)"
proof -
  have mismatch: "verify p c st w vs = (Inl (IssuerKeyMismatchError d (kid h)), st)"
    if ns: "\<not> startsWith (kid h) d"
  proof -
    from ns have "d \<noteq> []" by auto
    with iss have "issuerDidOf cred = Inr d" by (rule issuerDidOf_normalized)
    with parsed show ?thesis using ns by (rule verify_binding_fails)
  qed
  have ok: "startsWith (kid h) d" if "verify p c st w vs = (Inr cr, st1)" for cr st1
  proof (rule ccontr)
    assume "\<not> startsWith (kid h) d"
    from mismatch[OF this] that show False by simp
  qed
  have req: "startsWith (kid h) d" if "requests (snd (verify p c st w vs)) \<noteq> requests st"
  proof (rule ccontr)
    assume "\<not> startsWith (kid h) d"
    from mismatch[OF this] that show False by simp
  qed
  show ?thesis using mismatch ok req by blast
qed


lemma example_parse:
  "parseJWS exampleCollaborators (Compact h cred g) = Inr (h, cred)"
  by (simp add: exampleCollaborators_def parseJWS_spec_def)

lemma example_issuer: "issuer exampleCredential = Some (IssuerString ''did:web:a.com'')"
  by (simp add: exampleCredential_def buildCredential_def noOptions_def truthy_def)

lemma example_resolveAndVerify:
  "fst (resolveAndVerify examplePlatform exampleCollaborators exampleResolver
          (Compact exampleHeader
             (exampleCredential\<lparr>issuer := Some (IssuerObject (Some ''did:web:a.com''))\<rparr>) ''pub-1'')
          ''did:web:a.com#key-1'' False) =
     Inr (exampleCredential\<lparr>issuer := Some (IssuerObject (Some ''did:web:a.com''))\<rparr>)"
  "fst (resolveAndVerify examplePlatform exampleCollaborators exampleResolver
          (Compact exampleHeader exampleCredential ''pub-1'') ''did:web:a.com#key-1'' False) =
     Inr exampleCredential"
  by code_simp+

theorem verify_missing_issuer_witness:
  "(\<exists>m. verify examplePlatform exampleCollaborators exampleResolver
          (Compact exampleHeader (exampleCredential\<lparr>issuer := None\<rparr>) ''pub-1'') False =
        (Inl (MissingIssuerError m), exampleResolver)) \<and>
   issuerDidOf (exampleCredential\<lparr>issuer := Some (IssuerObject (Some ''did:web:a.com''))\<rparr>) =
     Inr ''did:web:a.com'' \<and>
   issuerDidOf exampleCredential = Inr ''did:web:a.com'' \<and>
   fst (verify examplePlatform exampleCollaborators exampleResolver
          (Compact exampleHeader
             (exampleCredential\<lparr>issuer := Some (IssuerObject (Some ''did:web:a.com''))\<rparr>) ''pub-1'')
          False) =
     Inr (exampleCredential\<lparr>issuer := Some (IssuerObject (Some ''did:web:a.com''))\<rparr>) \<and>
   fst (verify examplePlatform exampleCollaborators exampleResolver
          (Compact exampleHeader exampleCredential ''pub-1'') False) =
     Inr exampleCredential"
proof -
  have p1: "parseJWS exampleCollaborators
        (Compact exampleHeader (exampleCredential\<lparr>issuer := None\<rparr>) ''pub-1'') =
      Inr (exampleHeader, exampleCredential\<lparr>issuer := None\<rparr>)"
    by (rule example_parse)
  have p2: "parseJWS exampleCollaborators
        (Compact exampleHeader
           (exampleCredential\<lparr>issuer := Some (IssuerObject (Some ''did:web:a.com''))\<rparr>) ''pub-1'') =
      Inr (exampleHeader, exampleCredential\<lparr>issuer := Some (IssuerObject (Some ''did:web:a.com''))\<rparr>)"
    by (rule example_parse)
  have p3: "parseJWS exampleCollaborators (Compact exampleHeader exampleCredential ''pub-1'') =
      Inr (exampleHeader, exampleCredential)"
    by (rule example_parse)
  have k: "kid exampleHeader = ''did:web:a.com#key-1''" by (simp add: exampleHeader_def)
  have sw: "startsWith ''did:web:a.com#key-1'' ''did:web:a.com''" by simp
  have a: "\<exists>m. verify examplePlatform exampleCollaborators exampleResolver
          (Compact exampleHeader (exampleCredential\<lparr>issuer := None\<rparr>) ''pub-1'') False =
        (Inl (MissingIssuerError m), exampleResolver)"
    using verify_missing_issuer[OF p1, of examplePlatform exampleResolver False] by simp
  from verify_missing_issuer[OF p2, of examplePlatform exampleResolver False]
  have b: "issuerDidOf (exampleCredential\<lparr>issuer := Some (IssuerObject (Some ''did:web:a.com''))\<rparr>) =
        Inr ''did:web:a.com''"
    and b': "verify examplePlatform exampleCollaborators exampleResolver
          (Compact exampleHeader
             (exampleCredential\<lparr>issuer := Some (IssuerObject (Some ''did:web:a.com''))\<rparr>) ''pub-1'')
          False =
        resolveAndVerify examplePlatform exampleCollaborators exampleResolver
          (Compact exampleHeader
             (exampleCredential\<lparr>issuer := Some (IssuerObject (Some ''did:web:a.com''))\<rparr>) ''pub-1'')
          ''did:web:a.com#key-1'' False"
    using sw by (simp_all add: k)
  from verify_missing_issuer[OF p3, of examplePlatform exampleResolver False] example_issuer
  have c: "issuerDidOf exampleCredential = Inr ''did:web:a.com''"
    and c': "verify examplePlatform exampleCollaborators exampleResolver
          (Compact exampleHeader exampleCredential ''pub-1'') False =
        resolveAndVerify examplePlatform exampleCollaborators exampleResolver
          (Compact exampleHeader exampleCredential ''pub-1'') ''did:web:a.com#key-1'' False"
    using sw by (simp_all add: k)
  show ?thesis using a b c by (simp add: b' c' example_resolveAndVerify)
qed

theorem verify_issuer_key_binding_witness:
  "verify examplePlatform exampleCollaborators exampleResolver
     (Compact exampleHeader (exampleCredential\<lparr>issuer := Some (IssuerString ''did:web:b.com'')\<rparr>)
        ''pub-1'') False =
   (Inl (IssuerKeyMismatchError ''did:web:b.com'' ''did:web:a.com#key-1''), exampleResolver)"
proof -
  have parsed: "parseJWS exampleCollaborators
        (Compact exampleHeader (exampleCredential\<lparr>issuer := Some (IssuerString ''did:web:b.com'')\<rparr>)
           ''pub-1'') =
      Inr (exampleHeader, exampleCredential\<lparr>issuer := Some (IssuerString ''did:web:b.com'')\<rparr>)"
    by (rule example_parse)
  have iss: "issuer (exampleCredential\<lparr>issuer := Some (IssuerString ''did:web:b.com'')\<rparr>) =
        Some (IssuerString ''did:web:b.com'') \<or>
      issuer (exampleCredential\<lparr>issuer := Some (IssuerString ''did:web:b.com'')\<rparr>) =
        Some (IssuerObject (Some ''did:web:b.com''))"
    by simp
  have ns: "\<not> startsWith (kid exampleHeader) ''did:web:b.com''"
    by (simp add: exampleHeader_def)
  have k: "kid exampleHeader = ''did:web:a.com#key-1''" by (simp add: exampleHeader_def)
  show ?thesis
    using verify_issuer_key_binding[OF parsed iss, of examplePlatform exampleResolver False] ns
    by (simp add: k)
qed

section \<open>Issuance\<close>

lemma issueCredential_Inr:
  assumes "issueCredential io d path types subj opts = Inr w"
  shows "\<exists>keys key. readPrivateKeys io path = Inr keys \<and> assertion_key keys = Some key \<and>
           sign io key (buildCredential d types subj opts) (d @ ''#'' @ pk_kid key) = Inr w"
  using assms by (auto simp: issueCredential_def split: sum.splits option.splits)

lemma type_buildCredential: "type (buildCredential d types subj opts) = types"
  by (simp add: buildCredential_def Let_def)

lemma issuer_buildCredential: "issuer (buildCredential d types subj opts) = Some (IssuerString d)"
  by (simp add: buildCredential_def Let_def)

text \<open>
  Claim C8, as amended. \<^verbatim>\<open>issueCredential\<close> neither adds nor checks a type: the
  credential it hands to the signer has as its \<^verbatim>\<open>type\<close> array exactly the
  \<^verbatim>\<open>credentialTypes\<close> argument. So the array holds \<^verbatim>\<open>VerifiableCredential\<close> and a more
  specific type exactly when the caller passed them.
\<close>

theorem issueCredential_type_is_argument:
  assumes "issueCredential io d path types subj opts = Inr w"
  shows "\<exists>keys key. readPrivateKeys io path = Inr keys \<and> assertion_key keys = Some key \<and>
           sign io key (buildCredential d types subj opts) (d @ ''#'' @ pk_kid key) = Inr w \<and>
           type (buildCredential d types subj opts) = types"
  using issueCredential_Inr[OF assms] by (simp add: type_buildCredential)

lemma example_issue:
  "issueCredential exampleIssuing ''did:web:a.com'' ''keys.json'' types () noOptions =
     Inr (Compact exampleHeader (buildCredential ''did:web:a.com'' types () noOptions) ''pub-1'')"
  by (simp add: issueCredential_def exampleIssuing_def sign_spec_def exampleHeader_def)

theorem issueCredential_type_is_argument_witness:
  "sign exampleIssuing \<lparr>pk_kid = ''key-1'', pk_alg = ''ES256'', pk_jwk = ''pub-1''\<rparr>
     (buildCredential ''did:web:a.com'' [''VerifiableCredential'', ''ExampleCredential''] () noOptions)
     ''did:web:a.com#key-1'' =
     Inr (Compact exampleHeader exampleCredential ''pub-1'') \<and>
   type (buildCredential ''did:web:a.com'' [''VerifiableCredential'', ''ExampleCredential''] ()
     noOptions) = [''VerifiableCredential'', ''ExampleCredential'']"
proof -
  have issued: "issueCredential exampleIssuing ''did:web:a.com'' ''keys.json''
      [''VerifiableCredential'', ''ExampleCredential''] () noOptions =
     Inr (Compact exampleHeader exampleCredential ''pub-1'')"
    unfolding exampleCredential_def by (rule example_issue)
  have rd: "readPrivateKeys exampleIssuing ''keys.json'' =
      Inr \<lparr>assertion_key = Some \<lparr>pk_kid = ''key-1'', pk_alg = ''ES256'', pk_jwk = ''pub-1''\<rparr>,
           authentication_key = None\<rparr>"
    by (simp add: exampleIssuing_def)
  from issueCredential_type_is_argument[OF issued] rd show ?thesis by auto
qed

text \<open>
  Claim C8 as stated fails: called with the one type \<^verbatim>\<open>ExampleCredential\<close>,
  \<^verbatim>\<open>issueCredential\<close> signs a credential whose \<^verbatim>\<open>type\<close> array lacks the base type.
\<close>

theorem issueCredential_type_counterexample:
  "issueCredential exampleIssuing ''did:web:a.com'' ''keys.json'' [''ExampleCredential''] ()
     noOptions =
     Inr (Compact exampleHeader
            (buildCredential ''did:web:a.com'' [''ExampleCredential''] () noOptions) ''pub-1'') \<and>
   ''VerifiableCredential'' \<notin>
     set (type (buildCredential ''did:web:a.com'' [''ExampleCredential''] () noOptions))"
  by (simp add: example_issue type_buildCredential)

text \<open>
  Claim C10. When \<^verbatim>\<open>issueCredential\<close> returns a signed object for the issuer DID \<open>d\<close>,
  and the codec gives back the header and payload that went into the signer, then the
  header's \<^verbatim>\<open>kid\<close> is \<open>d\<close>, \<^verbatim>\<open>#\<close> and the \<^verbatim>\<open>kid\<close> of the assertion key, the payload's
  issuer is the string \<open>d\<close>, which is what the verifier extracts, and the header's
  \<^verbatim>\<open>kid\<close> starts with it. So \<^verbatim>\<open>verify\<close>, with every resolver, state and option, passes
  the binding check on this object and does the steps that follow it; only the empty
  string for \<open>d\<close> is refused before the check, as a missing issuer.
\<close>

theorem issueCredential_kid_prefixed_by_issuer:
  assumes issued: "issueCredential io d path types subj opts = Inr w"
    and codec: "\<forall>key cred k w'. sign io key cred k = Inr w' \<longrightarrow>
                  (\<exists>a. parseJWS c w' = Inr (\<lparr>alg = a, kid = k\<rparr>, cred))"
  shows "\<exists>keys key h cred.
           readPrivateKeys io path = Inr keys \<and> assertion_key keys = Some key \<and>
           parseJWS c w = Inr (h, cred) \<and>
           kid h = d @ ''#'' @ pk_kid key \<and>
           issuer cred = Some (IssuerString d) \<and>
           (d \<noteq> [] \<longrightarrow> issuerDidOf cred = Inr d) \<and>
           startsWith (kid h) d \<and>
           (\<forall>p st vs. verify p c st w vs =
              (if d = [] then (Inl (MissingIssuerError ''Credential must have an issuer''), st)
               else resolveAndVerify p c st w (d @ ''#'' @ pk_kid key) vs))"
proof -
  from issueCredential_Inr[OF issued] obtain keys key where
    rd: "readPrivateKeys io path = Inr keys" and ak: "assertion_key keys = Some key" and
    sg: "sign io key (buildCredential d types subj opts) (d @ ''#'' @ pk_kid key) = Inr w"
    by blast
  let ?k = "d @ ''#'' @ pk_kid key"
  let ?cred = "buildCredential d types subj opts"
  from codec sg obtain a where ps: "parseJWS c w = Inr (\<lparr>alg = a, kid = ?k\<rparr>, ?cred)"
    by blast
  have sw: "startsWith ?k d" by (rule startsWith_append)
  have iss: "issuer ?cred = Some (IssuerString d)"
    by (rule issuer_buildCredential)
  have norm: "d \<noteq> [] \<longrightarrow> issuerDidOf ?cred = Inr d"
    using iss by (simp add: issuerDidOf_def)
  have v: "verify p c st w vs =
              (if d = [] then (Inl (MissingIssuerError ''Credential must have an issuer''), st)
               else resolveAndVerify p c st w ?k vs)" for p st vs
  proof (cases "d = []")
    case True
    have "issuerDidOf ?cred = Inl (MissingIssuerError ''Credential must have an issuer'')"
      using iss True by (simp add: issuerDidOf_def)
    with ps have "verify p c st w vs =
        (Inl (MissingIssuerError ''Credential must have an issuer''), st)"
      by (rule verify_parsed)
    with True show ?thesis by simp
  next
    case False
    with norm have n: "issuerDidOf ?cred = Inr d" by simp
    have sw': "startsWith (kid \<lparr>alg = a, kid = ?k\<rparr>) d" using sw by simp
    have "verify p c st w vs = resolveAndVerify p c st w (kid \<lparr>alg = a, kid = ?k\<rparr>) vs"
      using ps n sw' by (rule verify_binding_holds)
    with False show ?thesis by simp
  qed
  have "readPrivateKeys io path = Inr keys \<and> assertion_key keys = Some key \<and>
        parseJWS c w = Inr (\<lparr>alg = a, kid = ?k\<rparr>, ?cred) \<and>
        kid \<lparr>alg = a, kid = ?k\<rparr> = ?k \<and>
        issuer ?cred = Some (IssuerString d) \<and>
        (d \<noteq> [] \<longrightarrow> issuerDidOf ?cred = Inr d) \<and>
        startsWith (kid \<lparr>alg = a, kid = ?k\<rparr>) d \<and>
        (\<forall>p st vs. verify p c st w vs =
              (if d = [] then (Inl (MissingIssuerError ''Credential must have an issuer''), st)
               else resolveAndVerify p c st w ?k vs))"
    using rd ak ps sw iss norm v by simp
  then show ?thesis by (intro exI)
qed

theorem issueCredential_kid_prefixed_by_issuer_witness:
  "issueCredential exampleIssuing ''did:web:a.com'' ''keys.json''
      [''VerifiableCredential'', ''ExampleCredential''] () noOptions =
     Inr (Compact exampleHeader exampleCredential ''pub-1'') \<and>
   kid exampleHeader = ''did:web:a.com'' @ ''#'' @ ''key-1'' \<and>
   issuer exampleCredential = Some (IssuerString ''did:web:a.com'') \<and>
   startsWith (kid exampleHeader) ''did:web:a.com'' \<and>
   fst (verify examplePlatform exampleCollaborators exampleResolver
          (Compact exampleHeader exampleCredential ''pub-1'') False) = Inr exampleCredential"
proof -
  have issued: "issueCredential exampleIssuing ''did:web:a.com'' ''keys.json''
      [''VerifiableCredential'', ''ExampleCredential''] () noOptions =
     Inr (Compact exampleHeader exampleCredential ''pub-1'')"
    unfolding exampleCredential_def by (rule example_issue)
  have codec: "\<forall>key cred k w'. sign exampleIssuing key cred k = Inr w' \<longrightarrow>
      (\<exists>a. parseJWS exampleCollaborators w' = Inr (\<lparr>alg = a, kid = k\<rparr>, (cred :: unit credential)))"
    by (auto simp: exampleIssuing_def exampleCollaborators_def sign_spec_def parseJWS_spec_def)
  have parsed: "parseJWS exampleCollaborators (Compact exampleHeader exampleCredential ''pub-1'') =
      Inr (exampleHeader, exampleCredential)"
    by (simp add: exampleCollaborators_def parseJWS_spec_def)
  have rd: "readPrivateKeys exampleIssuing ''keys.json'' =
      Inr \<lparr>assertion_key = Some \<lparr>pk_kid = ''key-1'', pk_alg = ''ES256'', pk_jwk = ''pub-1''\<rparr>,
           authentication_key = None\<rparr>"
    by (simp add: exampleIssuing_def)
  from issueCredential_kid_prefixed_by_issuer[OF issued codec]
  obtain keys key h cred where
    f: "readPrivateKeys exampleIssuing ''keys.json'' = Inr keys" "assertion_key keys = Some key"
    "parseJWS exampleCollaborators (Compact exampleHeader exampleCredential ''pub-1'') = Inr (h, cred)"
    "kid h = ''did:web:a.com'' @ ''#'' @ pk_kid key"
    "issuer cred = Some (IssuerString ''did:web:a.com'')"
    "startsWith (kid h) ''did:web:a.com''"
    and v: "\<forall>p st vs. verify p exampleCollaborators st
               (Compact exampleHeader exampleCredential ''pub-1'') vs =
              (if ''did:web:a.com'' = [] then (Inl (MissingIssuerError ''Credential must have an issuer''), st)
               else resolveAndVerify p exampleCollaborators st
                      (Compact exampleHeader exampleCredential ''pub-1'')
                      (''did:web:a.com'' @ ''#'' @ pk_kid key) vs)"
    by blast
  from f(1,2) rd have key: "pk_kid key = ''key-1''" by auto
  have "verify examplePlatform exampleCollaborators exampleResolver
          (Compact exampleHeader exampleCredential ''pub-1'') False =
        resolveAndVerify examplePlatform exampleCollaborators exampleResolver
          (Compact exampleHeader exampleCredential ''pub-1'') ''did:web:a.com#key-1'' False"
    using v[rule_format, of examplePlatform exampleResolver False] by (simp add: key)
  then have full: "fst (verify examplePlatform exampleCollaborators exampleResolver
          (Compact exampleHeader exampleCredential ''pub-1'') False) = Inr exampleCredential"
    by (simp add: example_resolveAndVerify)
  from f parsed rd show ?thesis using issued full by auto
qed

text \<open>The credential of the example, as issued, passes the whole verification.\<close>

lemma verify_example_issued:
  "fst (verify examplePlatform exampleCollaborators exampleResolver
     (Compact exampleHeader exampleCredential ''pub-1'') False) = Inr exampleCredential"
  by code_simp

section \<open>Expiration and not-before checks\<close>

text \<open>
  Where the two checks do what they are meant to do. The clock \<open>now\<close> is a valid date,
  so it is within 8.64e15 milliseconds of the epoch.
\<close>

lemma checkExpiration_rejects_past:
  "exp cred = Some e \<Longrightarrow> e \<noteq> 0 \<Longrightarrow> - 8640000000000 \<le> e \<Longrightarrow> e * 1000 < now \<Longrightarrow>
   now \<le> 8640000000000000 \<Longrightarrow>
   checkExpiration cred now = Some (CredentialExpired (e * 1000))"
  by (simp add: checkExpiration_def newDate_def dateLess_def)

lemma checkExpiration_passes_not_past:
  "exp cred = Some e \<Longrightarrow> now \<le> e * 1000 \<Longrightarrow> checkExpiration cred now = None"
  by (simp add: checkExpiration_def newDate_def dateLess_def)

lemma checkNotBefore_rejects_future:
  "nbf cred = Some n \<Longrightarrow> n \<noteq> 0 \<Longrightarrow> n \<le> 8640000000000 \<Longrightarrow> now < n * 1000 \<Longrightarrow>
   - 8640000000000000 \<le> now \<Longrightarrow>
   checkNotBefore cred now = Some (CredentialNotYetValid (n * 1000))"
  by (simp add: checkNotBefore_def newDate_def dateGreater_def)

text \<open>
  The two examples of the spec, with the clock at \<open>s\<close> seconds and \<open>r\<close> milliseconds:
  \<open>exp = s - 1\<close> is rejected (when it is not 0 and a valid date), \<open>exp = s + 3600\<close>
  passes.
\<close>

lemma checkExpiration_spec_examples:
  assumes "0 \<le> r" "r < 1000" "s * 1000 + r \<le> 8640000000000000"
  shows "exp cred = Some (s - 1) \<Longrightarrow> s \<noteq> 1 \<Longrightarrow> - 8640000000000 \<le> s - 1 \<Longrightarrow>
           checkExpiration cred (s * 1000 + r) = Some (CredentialExpired ((s - 1) * 1000))"
    and "exp cred = Some (s + 3600) \<Longrightarrow> checkExpiration cred (s * 1000 + r) = None"
  using assms
  by (simp_all add: checkExpiration_def newDate_def dateLess_def)

lemma validateCredential_checks:
  "verify p c st w False = (Inr cred, st1) \<Longrightarrow>
   validateCredential p c st w now1 now2 =
     (case checkExpiration cred now1 of
        Some r \<Rightarrow> (Inl r, st1)
      | None \<Rightarrow> (case checkNotBefore cred now2 of
                   Some r \<Rightarrow> (Inl r, st1)
                 | None \<Rightarrow> (Inr cred, st1)))"
  by (simp add: validateCredential_def)

lemma checkNotBefore_accepts_invalid_date:
  "checkNotBefore (exampleCredential\<lparr>nbf := Some 10000000000000\<rparr>) 1700000000000 = None"
  by (simp add: checkNotBefore_def newDate_def dateGreater_def)

text \<open>
  Claim C9. The claim says that every credential whose \<^verbatim>\<open>exp\<close> lies in the past is
  rejected. The code does not reject \<^verbatim>\<open>exp = 0\<close>: the guard \<^verbatim>\<open>if (credential.exp)\<close> is
  false for the number 0, so with the clock in November 2023 a credential that expired
  at the epoch passes the check and the loop body accepts it.
\<close>

theorem validateCredential_accepts_expired_at_epoch:
  "checkExpiration (exampleCredential\<lparr>exp := Some 0\<rparr>) 1700000000000 = None \<and>
   fst (validateCredential examplePlatform exampleCollaborators exampleResolver
          (Compact exampleHeader (exampleCredential\<lparr>exp := Some 0\<rparr>) ''pub-1'')
          1700000000000 1700000000000) = Inr (exampleCredential\<lparr>exp := Some 0\<rparr>)"
proof -
  have a: "checkExpiration (exampleCredential\<lparr>exp := Some 0\<rparr>) 1700000000000 = None"
    by (simp add: checkExpiration_def)
  have b: "fst (validateCredential examplePlatform exampleCollaborators exampleResolver
          (Compact exampleHeader (exampleCredential\<lparr>exp := Some 0\<rparr>) ''pub-1'')
          1700000000000 1700000000000) = Inr (exampleCredential\<lparr>exp := Some 0\<rparr>)"
    by code_simp
  show ?thesis using a b by (rule conjI)
qed

end
